theory Spec2Isabelle
  imports Complex_Main "HOL-Library.Sublist" "HOL-Library.Option_ord" "HOL-Library.AList"
    "HOL-Library.Log_Nat"
begin

section \<open>JavaScript primitives used by the agent\<close>

text \<open>
  Strings are \<^typ>\<open>string\<close>, whose characters are the code points up to \<open>U+00FF\<close>;
  JavaScript strings with other code units have no counterpart here. The keywords, units
  and separators the code looks for are all ASCII.

  A JavaScript number is a double. The numbers of this program that the model follows
  (milliseconds, counters, days) hold integers, and such a number is modelled by the
  \<^typ>\<open>int\<close> it holds: a double holds every integer of magnitude up to \<open>2^53\<close> and, beyond,
  only those with at most 53 significant bits. The result of reading a numeral and of
  every \<open>+\<close> and \<open>*\<close> is therefore rounded to the nearest such integer, ties to the even
  significand. Magnitudes beyond the largest double (about \<open>1.8 * 10^308\<close>), where
  JavaScript yields \<open>Infinity\<close>, are outside the model.
\<close>

definition to_double :: "int \<Rightarrow> int" where
  \<comment> \<open>the double nearest to an integer (53 significant bits, ties to even)\<close>
  "to_double n =
     (if \<bar>n\<bar> < 2 ^ 53 then n
      else (let e = nat (bitlen \<bar>n\<bar> - 53);
                q = \<bar>n\<bar> div 2 ^ e;
                r = \<bar>n\<bar> mod 2 ^ e;
                q' = (if r * 2 > 2 ^ e \<or> (r * 2 = 2 ^ e \<and> odd q) then q + 1 else q)
            in sgn n * q' * 2 ^ e))"

definition str_includes :: "string \<Rightarrow> string \<Rightarrow> bool" where
  \<comment> \<open>\<^verbatim>\<open>text.includes(keyword)\<close>: \<open>keyword\<close> occurs as a contiguous run of \<open>text\<close>.\<close>
  "str_includes text keyword = sublist keyword text"

definition lower_char :: "char \<Rightarrow> char" where
  \<comment> \<open>the letters \<open>A\<close> to \<open>Z\<close>, and the capital letters from \<open>U+00C0\<close> to \<open>U+00DE\<close>\<close>
  "lower_char c =
     (case map_of (zip ''ABCDEFGHIJKLMNOPQRSTUVWXYZ'' ''abcdefghijklmnopqrstuvwxyz'') c of
        Some l \<Rightarrow> l
      | None \<Rightarrow>
          (case map_of
                  (zip [CHR 0xC0, CHR 0xC1, CHR 0xC2, CHR 0xC3, CHR 0xC4, CHR 0xC5, CHR 0xC6, CHR 0xC7,
                        CHR 0xC8, CHR 0xC9, CHR 0xCA, CHR 0xCB, CHR 0xCC, CHR 0xCD, CHR 0xCE, CHR 0xCF,
                        CHR 0xD0, CHR 0xD1, CHR 0xD2, CHR 0xD3, CHR 0xD4, CHR 0xD5, CHR 0xD6, CHR 0xD8,
                        CHR 0xD9, CHR 0xDA, CHR 0xDB, CHR 0xDC, CHR 0xDD, CHR 0xDE]
                       [CHR 0xE0, CHR 0xE1, CHR 0xE2, CHR 0xE3, CHR 0xE4, CHR 0xE5, CHR 0xE6, CHR 0xE7,
                        CHR 0xE8, CHR 0xE9, CHR 0xEA, CHR 0xEB, CHR 0xEC, CHR 0xED, CHR 0xEE, CHR 0xEF,
                        CHR 0xF0, CHR 0xF1, CHR 0xF2, CHR 0xF3, CHR 0xF4, CHR 0xF5, CHR 0xF6, CHR 0xF8,
                        CHR 0xF9, CHR 0xFA, CHR 0xFB, CHR 0xFC, CHR 0xFD, CHR 0xFE]) c of
             Some l \<Rightarrow> l
           | None \<Rightarrow> c))"

definition toLowerCase :: "string \<Rightarrow> string" where
  "toLowerCase s = map lower_char s"

definition is_digit :: "char \<Rightarrow> bool" where
  "is_digit c = (c \<in> set ''0123456789'')"

definition is_space :: "char \<Rightarrow> bool" where
  \<comment> \<open>JavaScript's white space and line terminators among the characters of the model:
      tab, line feed, vertical tab, form feed, carriage return, space, no-break space\<close>
  "is_space c = (c \<in> set [CHR 0x09, CHR 0x0A, CHR 0x0B, CHR 0x0C, CHR 0x0D, CHR 0x20, CHR 0xA0])"

definition digit_val :: "char \<Rightarrow> int" where
  "digit_val c = (case map_of (zip ''0123456789'' [0, 1, 2, 3, 4, 5, 6, 7, 8, 9]) c of
                    Some d \<Rightarrow> d
                  | None \<Rightarrow> 0)"

definition digits_value :: "string \<Rightarrow> int" where
  \<comment> \<open>the number a string of decimal digits denotes\<close>
  "digits_value ds = foldl (\<lambda>acc c. 10 * acc + digit_val c) 0 ds"

text \<open>
  The integer a text starts with: skip leading white space, read an optional sign, then
  the longest run of decimal digits; whatever follows is ignored. \<^const>\<open>None\<close> without a
  digit. What counts as white space depends on who reads: JavaScript or the database.
\<close>

definition integer_prefix :: "(char \<Rightarrow> bool) \<Rightarrow> string \<Rightarrow> int option" where
  "integer_prefix space s =
     (let t = dropWhile space s;
          neg = (t \<noteq> [] \<and> hd t = CHR ''-'');
          r = (if t \<noteq> [] \<and> (hd t = CHR ''-'' \<or> hd t = CHR ''+'') then tl t else t);
          ds = takeWhile is_digit r
      in if ds = [] then None
         else Some (if neg then - digits_value ds else digits_value ds))"

text \<open>
  \<^verbatim>\<open>parseInt(s, 10)\<close>: the double nearest to the integer the text starts with; without a
  digit the result is \<open>NaN\<close>, here \<^const>\<open>None\<close>.
\<close>

definition parseInt :: "string \<Rightarrow> int option" where
  "parseInt s = map_option to_double (integer_prefix is_space s)"

fun split_on :: "char \<Rightarrow> string \<Rightarrow> string list" where
  \<comment> \<open>\<^verbatim>\<open>s.split(d)\<close> for a one-character separator: always at least one piece\<close>
  "split_on d [] = [[]]"
| "split_on d (c # cs) =
     (if c = d then [] # split_on d cs
      else (case split_on d cs of
              w # ws \<Rightarrow> (c # w) # ws
            | [] \<Rightarrow> [[c]]))"

text \<open>
  An exception with its message: JavaScript's \<^verbatim>\<open>Error\<close>, \<^verbatim>\<open>TypeError\<close> and
  \<^verbatim>\<open>SyntaxError\<close>.
\<close>

datatype js_error = Error string | TypeError string | SyntaxError string

section \<open>Scheduler: parsing a schedule\<close>

text \<open>
  The parsed schedule is \<^verbatim>\<open>{type: 'cron', expression}\<close> or
  \<^verbatim>\<open>{type: 'interval', ms, original}\<close>; \<open>original\<close> is only set by the
  \<^verbatim>\<open><n><unit>\<close> branch. \<open>ms\<close> is \<^const>\<open>None\<close> for \<open>NaN\<close>.
\<close>

datatype schedule =
    Cron (expression: string)
  | Interval (ms: "int option") (original: "string option")

definition multipliers :: "char \<Rightarrow> int option" where
  \<comment> \<open>the object literal of the interval branch; a missing key reads as \<open>undefined\<close>\<close>
  "multipliers = map_of
     [(CHR ''s'', 1000),
      (CHR ''m'', 60 * 1000),
      (CHR ''h'', 60 * 60 * 1000),
      (CHR ''d'', 24 * 60 * 60 * 1000)]"

definition js_times :: "int option \<Rightarrow> int option \<Rightarrow> int option" where
  \<comment> \<open>a product of numbers, rounded to a double; \<open>NaN\<close> and \<open>undefined\<close> operands
      (\<^const>\<open>None\<close>) give \<open>NaN\<close>\<close>
  "js_times a b = (case (a, b) of (Some x, Some y) \<Rightarrow> Some (to_double (x * y)) | _ \<Rightarrow> None)"

definition match_interval :: "string \<Rightarrow> (string \<times> char) option" where
  \<comment> \<open>the regular expression \<^verbatim>\<open>/^(\d+)(s|m|h|d)$/i\<close>: the two groups of a match\<close>
  "match_interval s =
     (if s \<noteq> [] \<and> butlast s \<noteq> [] \<and> list_all is_digit (butlast s)
         \<and> last s \<in> set ''smhdSMHD''
      then Some (butlast s, last s)
      else None)"

definition invalid_schedule_message :: "string \<Rightarrow> string" where
  "invalid_schedule_message s =
     ''Invalid schedule format: '' @ s @ ''. Use cron expression or interval (e.g., ''
       @ [CHR 0x22] @ ''5m'' @ [CHR 0x22] @ '', '' @ [CHR 0x22] @ ''1h'' @ [CHR 0x22] @ '')''"

definition parseSchedule :: "string \<Rightarrow> js_error + schedule" where
  "parseSchedule s =
     (if CHR ''*'' \<in> set s \<or> length (split_on CHR '' '' s) \<ge> 5 then Inr (Cron s)
      else (case match_interval s of
              Some (digits, unit) \<Rightarrow>
                Inr (Interval (js_times (parseInt digits) (multipliers (lower_char unit)))
                              (Some s))
            | None \<Rightarrow>
                (case parseInt s of
                   Some n \<Rightarrow> Inr (Interval (Some n) None)
                 | None \<Rightarrow> Inl (Error (invalid_schedule_message s)))))"

section \<open>Scheduler: tasks, timers and the event loop\<close>

text \<open>
  A task's action is an opaque function without arguments. The scheduler can tell apart
  two ways it may behave when called: a plain function does all its work during the call
  and returns or throws; an asynchronous one returns a promise that is still pending when
  the call returns and settles in a later turn of the event loop. Actions are taken not to
  touch the scheduler itself.
\<close>

datatype outcome = Resolves | Rejects string

datatype task_fn = SyncFn outcome | AsyncFn outcome

record task_config =
  schedule :: schedule
  originalSchedule :: string
  task :: task_fn
  runImmediately :: bool
  enabled :: bool
  lastRun :: "int option"
  nextRun :: "int option"
  runCount :: nat
  errors :: "(int \<times> string) list"

datatype sched_event = ActionStarted string | ActionFinished string | TimerArmed string

text \<open>
  Who called \<open>executeTask\<close>: \<open>start\<close>, which does not wait for the call; the callback
  of a timer, which awaits it and then schedules the next occurrence; or \<open>runNow\<close>, which
  awaits it and returns.
\<close>

datatype caller = FromStart | FromTimer | FromRunNow

text \<open>
  The scheduler object holds the two maps \<open>tasks\<close> and \<open>timers\<close> (in insertion order,
  as a JavaScript \<^verbatim>\<open>Map\<close> iterates) and the \<open>running\<close> flag. Next to them the
  state records what the runtime holds for it: the timeouts that were set and not
  cleared (handle, task name, delay), the next free timer handle, the calls of
  \<open>executeTask\<close> that are suspended at their \<^verbatim>\<open>await\<close>, and the order in which actions
  started, finished and timers were armed.
\<close>

record scheduler =
  tasks :: "(string \<times> task_config) list"
  timers :: "(string \<times> nat) list"
  running :: bool
  pending_timeouts :: "(nat \<times> string \<times> int option) list"
  next_handle :: nat
  in_flight :: "(string \<times> outcome \<times> caller) list"
  history :: "sched_event list"

definition new_scheduler :: scheduler where
  "new_scheduler = \<lparr>tasks = [], timers = [], running = False, pending_timeouts = [],
                     next_handle = 0, in_flight = [], history = []\<rparr>"

definition addTask ::
  "string \<Rightarrow> string \<Rightarrow> task_fn option \<Rightarrow> bool \<Rightarrow> bool \<Rightarrow> scheduler \<Rightarrow> js_error + scheduler" where
  "addTask name sched fn run_immediately is_enabled s =
     (if name = [] \<or> sched = [] \<or> fn = None
      then Inl (Error ''Task requires name, schedule, and task function'')
      else (case parseSchedule sched of
              Inl e \<Rightarrow> Inl e
            | Inr parsed \<Rightarrow>
                Inr (s\<lparr>tasks := AList.update name
                       \<lparr>schedule = parsed, originalSchedule = sched, task = the fn,
                        runImmediately = run_immediately, enabled = is_enabled,
                        lastRun = None, nextRun = None, runCount = 0, errors = []\<rparr>
                       (tasks s)\<rparr>)))"

definition push_error :: "int \<Rightarrow> string \<Rightarrow> task_config \<Rightarrow> task_config" where
  \<comment> \<open>the \<^verbatim>\<open>catch\<close> block of \<open>executeTask\<close>: keep only the last 10 errors\<close>
  "push_error now msg config =
     (let es = errors config @ [(now, msg)]
      in config\<lparr>errors := (if length es > 10 then tl es else es)\<rparr>)"

text \<open>
  \<open>executeTask\<close> up to the point where control returns to its caller: the bookkeeping,
  the call of the action, and for a plain function also what follows the call. For an
  asynchronous action the call is left suspended at \<^verbatim>\<open>await\<close>, together with the
  caller that may be waiting for it; \<open>settle\<close>, further down, is the continuation that the
  event loop runs once the promise has settled. The configuration object that the code
  passes along is the entry of \<open>tasks\<close> under the task's name, so the functions here take
  the name and update that entry.
\<close>

definition executeTask :: "int \<Rightarrow> caller \<Rightarrow> string \<Rightarrow> scheduler \<Rightarrow> scheduler" where
  "executeTask now who name s =
     (case map_of (tasks s) name of
        None \<Rightarrow> s
      | Some config \<Rightarrow>
          (let c = config\<lparr>lastRun := Some now, runCount := runCount config + 1\<rparr> in
           case task config of
             SyncFn Resolves \<Rightarrow>
               s\<lparr>tasks := AList.update name c (tasks s),
                 history := history s @ [ActionStarted name, ActionFinished name]\<rparr>
           | SyncFn (Rejects msg) \<Rightarrow>
               s\<lparr>tasks := AList.update name (push_error now msg c) (tasks s),
                 history := history s @ [ActionStarted name, ActionFinished name]\<rparr>
           | AsyncFn result \<Rightarrow>
               s\<lparr>tasks := AList.update name c (tasks s),
                 in_flight := in_flight s @ [(name, result, who)],
                 history := history s @ [ActionStarted name]\<rparr>))"

text \<open>
  \<open>scheduleNext\<close>. The cron library is outside the repository: \<open>cronNext e now\<close> stands
  for the time of the next occurrence of expression \<open>e\<close> after \<open>now\<close>, and is \<^const>\<open>None\<close>
  where the library throws.
\<close>

definition scheduleNext ::
  "(string \<Rightarrow> int \<Rightarrow> int option) \<Rightarrow> int \<Rightarrow> string \<Rightarrow> scheduler \<Rightarrow> scheduler" where
  "scheduleNext cronNext now name s =
     (case map_of (tasks s) name of
        None \<Rightarrow> s
      | Some config \<Rightarrow>
          if \<not> running s \<or> \<not> enabled config then s
          else
            (case (case schedule config of
                     Interval m _ \<Rightarrow> Some m
                   | Cron e \<Rightarrow>
                       (case cronNext e now of
                          None \<Rightarrow> None
                        | Some next \<Rightarrow>
                            Some (Some (if to_double (next - now) < 1000 then 1000
                                        else to_double (next - now))))) of
               None \<Rightarrow> s
             | Some delay \<Rightarrow>
                 s\<lparr>tasks := AList.update name
                             (config\<lparr>nextRun := map_option (\<lambda>d. to_double (now + d)) delay\<rparr>)
                             (tasks s),
                   pending_timeouts := pending_timeouts s @ [(next_handle s, name, delay)],
                   timers := AList.update name (next_handle s) (timers s),
                   next_handle := next_handle s + 1,
                   history := history s @ [TimerArmed name]\<rparr>))"

text \<open>
  The continuation of a suspended call of \<open>executeTask\<close>: a rejection is recorded, and a
  timer callback that was waiting goes on to schedule the next occurrence.
\<close>

definition settle ::
  "(string \<Rightarrow> int \<Rightarrow> int option) \<Rightarrow> int \<Rightarrow> string \<Rightarrow> scheduler \<Rightarrow> scheduler" where
  "settle cronNext now name s =
     (case map_of (in_flight s) name of
        None \<Rightarrow> s
      | Some (result, who) \<Rightarrow>
          (let s1 = s\<lparr>in_flight := remove1 (name, result, who) (in_flight s),
                        history := history s @ [ActionFinished name]\<rparr>;
               s2 = (case (result, map_of (tasks s) name) of
                       (Rejects msg, Some config) \<Rightarrow>
                         s1\<lparr>tasks := AList.update name (push_error now msg config) (tasks s)\<rparr>
                     | _ \<Rightarrow> s1)
           in if who = FromTimer then scheduleNext cronNext now name s2 else s2))"

text \<open>
  The callback of the timeout with handle \<open>h\<close>, when it fires: nothing if the scheduler
  was stopped or the task disabled; otherwise the task runs, and only when that run is
  over the next occurrence is scheduled.
\<close>

definition fire_timer ::
  "(string \<Rightarrow> int \<Rightarrow> int option) \<Rightarrow> int \<Rightarrow> nat \<Rightarrow> scheduler \<Rightarrow> scheduler" where
  "fire_timer cronNext now h s =
     (case find (\<lambda>(h', _). h' = h) (pending_timeouts s) of
        None \<Rightarrow> s
      | Some (_, name, _) \<Rightarrow>
          (let s1 = s\<lparr>pending_timeouts := filter (\<lambda>(h', _). h' \<noteq> h) (pending_timeouts s)\<rparr> in
           case map_of (tasks s1) name of
             None \<Rightarrow> s1
           | Some config \<Rightarrow>
               if \<not> running s1 \<or> \<not> enabled config then s1
               else (case task config of
                       SyncFn _ \<Rightarrow> scheduleNext cronNext now name (executeTask now FromTimer name s1)
                     | AsyncFn _ \<Rightarrow> executeTask now FromTimer name s1)))"

definition runNow :: "int \<Rightarrow> string \<Rightarrow> scheduler \<Rightarrow> js_error + scheduler" where
  "runNow now name s =
     (case map_of (tasks s) name of
        None \<Rightarrow> Inl (Error (''Task not found: '' @ name))
      | Some config \<Rightarrow> Inr (executeTask now FromRunNow name s))"

definition start_task ::
  "(string \<Rightarrow> int \<Rightarrow> int option) \<Rightarrow> int \<Rightarrow> scheduler \<Rightarrow> string \<Rightarrow> scheduler" where
  \<comment> \<open>the body of the loop of \<open>start\<close>\<close>
  "start_task cronNext now s name =
     (case map_of (tasks s) name of
        None \<Rightarrow> s
      | Some config \<Rightarrow>
          if \<not> enabled config then s
          else scheduleNext cronNext now name
                 (if runImmediately config then executeTask now FromStart name s else s))"

definition start :: "(string \<Rightarrow> int \<Rightarrow> int option) \<Rightarrow> int \<Rightarrow> scheduler \<Rightarrow> scheduler" where
  "start cronNext now s =
     (if running s then s
      else foldl (start_task cronNext now) (s\<lparr>running := True\<rparr>) (map fst (tasks s)))"

definition stop :: "scheduler \<Rightarrow> scheduler" where
  "stop s = s\<lparr>running := False,
              pending_timeouts :=
                filter (\<lambda>(h, _). h \<notin> set (map snd (timers s))) (pending_timeouts s),
              timers := []\<rparr>"

text \<open>
  The scheduler as the daemon sets it up: one task, \<open>market-creation\<close>, every hour,
  run immediately on start.
\<close>

definition market_creation_scheduler :: "task_fn \<Rightarrow> scheduler" where
  "market_creation_scheduler fn =
     (case addTask ''market-creation'' ''1h'' (Some fn) True True new_scheduler of
        Inr s \<Rightarrow> s
      | Inl _ \<Rightarrow> new_scheduler)"

section \<open>Relevance scorer\<close>

definition PRIVACY_KEYWORDS :: "(string \<times> rat) list" where
  "PRIVACY_KEYWORDS =
     [(''zero-knowledge'', 3), (''zk-proof'', 3), (''zk-snark'', 3), (''zk-stark'', 3),
      (''zkrollup'', 3), (''confidential'', 5 / 2), (''encryption'', 5 / 2),
      (''encrypted'', 5 / 2), (''privacy-preserving'', 3), (''private transaction'', 3),
      (''tornado cash'', 3), (''zcash'', 5 / 2), (''monero'', 5 / 2),
      (''light protocol'', 3), (''elusiv'', 3), (''aztec'', 5 / 2), (''railgun'', 5 / 2),
      (''secret network'', 5 / 2),
      (''gdpr'', 2), (''privacy law'', 5 / 2), (''data protection'', 2),
      (''surveillance'', 5 / 2), (''sanctions'', 2), (''ofac'', 5 / 2),
      (''compliance'', 3 / 2), (''kyc'', 3 / 2), (''aml'', 3 / 2),
      (''privacy'', 3 / 2), (''anonymous'', 2), (''anonymity'', 2),
      (''pseudonymous'', 3 / 2), (''private'', 1), (''mixer'', 2), (''mixing'', 2),
      (''shielded'', 5 / 2),
      (''homomorphic'', 3), (''mpc'', 5 / 2), (''secure enclave'', 2), (''tee'', 2),
      (''trusted execution'', 2),
      (''data breach'', 5 / 2), (''leak'', 3 / 2), (''hack'', 3 / 2),
      (''compromised'', 3 / 2),
      (''solana privacy'', 3), (''spl confidential'', 3),
      (''token-2022 confidential'', 3)]"

definition CATEGORY_KEYWORDS :: "(string \<times> string list) list" where
  "CATEGORY_KEYWORDS =
     [(''regulation'', [''law'', ''regulation'', ''gdpr'', ''sanctions'', ''ofac'',
                        ''compliance'', ''legislation'', ''ban'', ''restrict'']),
      (''technology'', [''zk'', ''protocol'', ''launch'', ''release'', ''upgrade'',
                        ''mainnet'', ''testnet'', ''tvl'', ''smart contract'']),
      (''adoption'', [''users'', ''growth'', ''adoption'', ''enterprise'', ''mainstream'',
                      ''wallet'', ''integration'']),
      (''events'', [''breach'', ''hack'', ''leak'', ''scandal'', ''arrest'', ''raid'',
                    ''lawsuit'', ''verdict''])]"

definition URGENCY_breaking :: "string list" where
  "URGENCY_breaking =
     [''breaking'', ''just in'', ''urgent'', ''alert'', ''confirmed'', ''arrested'',
      ''breached'']"

definition URGENCY_timely :: "string list" where
  "URGENCY_timely =
     [''announces'', ''launches'', ''releases'', ''proposes'', ''reaches'', ''exceeds'',
      ''surpasses'']"

definition determineUrgency :: "string \<Rightarrow> string" where
  \<comment> \<open>two loops that return at the first keyword found, then the fallback\<close>
  "determineUrgency text =
     (case find (\<lambda>keyword. str_includes text keyword) URGENCY_breaking of
        Some _ \<Rightarrow> ''breaking''
      | None \<Rightarrow>
          (case find (\<lambda>keyword. str_includes text keyword) URGENCY_timely of
             Some _ \<Rightarrow> ''timely''
           | None \<Rightarrow> ''evergreen''))"

definition determineCategory :: "string \<Rightarrow> string" where
  "determineCategory text =
     (let scores = map (\<lambda>(category, keywords).
                          (category, length (filter (\<lambda>keyword. str_includes text keyword) keywords)))
                       CATEGORY_KEYWORDS
      in snd (foldl (\<lambda>(maxScore, bestCategory) (category, score).
                       if score > maxScore then (score, category)
                       else (maxScore, bestCategory))
                    (0, ''technology'') scores))"

record relevance =
  score :: int
  matchedKeywords :: "string list"
  suggestedCategory :: string
  urgency :: string

text \<open>
  \<open>scoreRelevance(text, sourceKeywords, sourceWeight)\<close>. The source weight is a
  floating-point factor; the step \<^verbatim>\<open>Math.round(score * sourceWeight)\<close> is taken as the
  parameter \<open>weigh\<close>. For the default weight \<open>1.0\<close> it rounds a sum of multiples of 5 and
  is \<open>default_weigh\<close>.
\<close>

definition default_weigh :: "rat \<Rightarrow> int" where
  "default_weigh x = \<lfloor>x + 1 / 2\<rfloor>"

definition source_keyword_step ::
  "string \<Rightarrow> rat \<times> string list \<Rightarrow> string \<Rightarrow> rat \<times> string list" where
  \<comment> \<open>the body of the loop over the source-specific keywords\<close>
  "source_keyword_step lowerText acc keyword =
     (if str_includes lowerText (toLowerCase keyword)
      then (fst acc + 5,
            if keyword \<in> set (snd acc) then snd acc else snd acc @ [keyword])
      else acc)"

definition scoreRelevance :: "(rat \<Rightarrow> int) \<Rightarrow> string \<Rightarrow> string list \<Rightarrow> relevance" where
  "scoreRelevance weigh text sourceKeywords =
     (let lowerText = toLowerCase text;
          hits = filter (\<lambda>(keyword, weight). str_includes lowerText keyword) PRIVACY_KEYWORDS;
          base = (sum_list (map (\<lambda>(keyword, weight). weight * 10) hits), map fst hits);
          (total, matched) = foldl (source_keyword_step lowerText) base sourceKeywords
      in \<lparr>score = min (weigh total) 100,
          matchedKeywords = matched,
          suggestedCategory = determineCategory lowerText,
          urgency = determineUrgency lowerText\<rparr>)"

section \<open>Record store\<close>

subsection \<open>Values of record fields\<close>

text \<open>
  A numeric field of a record object may be absent (\<open>undefined\<close>), \<open>null\<close> (as every empty
  column reads back), \<open>NaN\<close> or a number. A text field is \<^const>\<open>None\<close> when it is absent
  or \<open>null\<close>; the code treats the two alike. A liquidity or volume is a \<open>BigInt\<close> or
  a string.
\<close>

datatype jsnum = Undefined | Null | NaN | Num int

datatype amount = BigInt int | Text string

definition truthy :: "jsnum \<Rightarrow> bool" where
  "truthy v = (case v of Num n \<Rightarrow> n \<noteq> 0 | _ \<Rightarrow> False)"

definition to_number :: "jsnum \<Rightarrow> int option" where
  \<comment> \<open>the number an operand of \<open>+\<close> or \<open>*\<close> stands for; \<^const>\<open>None\<close> is \<open>NaN\<close>\<close>
  "to_number v = (case v of Undefined \<Rightarrow> None | Null \<Rightarrow> Some 0 | NaN \<Rightarrow> None | Num n \<Rightarrow> Some n)"

definition js_plus :: "int option \<Rightarrow> int option \<Rightarrow> int option" where
  \<comment> \<open>a sum of numbers, rounded to a double\<close>
  "js_plus a b = (case (a, b) of (Some x, Some y) \<Rightarrow> Some (to_double (x + y)) | _ \<Rightarrow> None)"

definition bind_num :: "jsnum \<Rightarrow> int option" where
  \<comment> \<open>binding a value to a statement parameter: all but numbers are stored as \<open>NULL\<close>\<close>
  "bind_num v = (case v of Num n \<Rightarrow> Some n | _ \<Rightarrow> None)"

definition read_num :: "int option \<Rightarrow> jsnum" where
  "read_num c = (case c of None \<Rightarrow> Null | Some n \<Rightarrow> Num n)"

definition or_null :: "string option \<Rightarrow> string option" where
  \<comment> \<open>\<^verbatim>\<open>x || null\<close> on a text: the empty string is falsy\<close>
  "or_null x = (case x of Some t \<Rightarrow> (if t = [] then None else Some t) | None \<Rightarrow> None)"

definition digit_char :: "int \<Rightarrow> char" where
  "digit_char d =
     (case map_of (zip [0, 1, 2, 3, 4, 5, 6, 7, 8, 9] ''0123456789'') d of
        Some c \<Rightarrow> c
      | None \<Rightarrow> CHR ''0'')"

function dec_digits :: "int \<Rightarrow> string" where
  "dec_digits n = (if n < 10 then [digit_char n]
                   else dec_digits (n div 10) @ [digit_char (n mod 10)])"
  by pat_completeness auto
termination
  by (relation "measure nat") auto

declare dec_digits.simps [simp del]

definition dec :: "int \<Rightarrow> string" where
  \<comment> \<open>\<open>toString()\<close> of a \<open>BigInt\<close>: its decimal digits\<close>
  "dec i = (if i < 0 then CHR ''-'' # dec_digits (- i) else dec_digits i)"

definition amount_toString :: "amount \<Rightarrow> string" where
  \<comment> \<open>\<open>toString()\<close> of an amount: a string is its own\<close>
  "amount_toString x = (case x of BigInt n \<Rightarrow> dec n | Text t \<Rightarrow> t)"

definition amount_text :: "amount option \<Rightarrow> string option" where
  \<comment> \<open>\<^verbatim>\<open>x?.toString() || null\<close>\<close>
  "amount_text x = or_null (map_option amount_toString x)"

subsection \<open>Tables\<close>

text \<open>The record object that \<open>saveMarket\<close> takes and \<open>getMarket\<close> returns.\<close>

record market =
  address :: string
  question :: "string option"
  category :: "string option"
  categoryKey :: "string option"
  creationTime :: jsnum
  creationSignature :: "string option"
  initialLiquidity :: "amount option"
  durationDays :: jsnum
  endTime :: jsnum
  status :: "string option"
  outcome :: "string option"
  volume :: "amount option"
  resolutionTime :: jsnum
  metadata :: "string option"

text \<open>
  A record object's \<open>metadata\<close> is a JSON value, modelled by the text \<^verbatim>\<open>JSON.stringify\<close>
  gives for it, so that serialising and then parsing changes nothing. The metadata column
  of the table is plain text: \<open>saveMarket\<close> writes JSON text there, but \<open>updateMarket\<close>
  takes any key of its argument for a column name and can set the column to any text. A
  text in that column is therefore either the JSON text of a value or some other text,
  which \<^verbatim>\<open>JSON.parse\<close> rejects; the empty text is of the second kind.
\<close>

datatype column_text = JSON_text string | Other_text string

definition text_of :: "column_text \<Rightarrow> string" where
  "text_of c = (case c of JSON_text j \<Rightarrow> j | Other_text t \<Rightarrow> t)"

definition JSON_parse :: "column_text \<Rightarrow> js_error + string" where
  \<comment> \<open>the exception carries the rejected text in place of the parser's message\<close>
  "JSON_parse c = (case c of JSON_text j \<Rightarrow> Inr j | Other_text t \<Rightarrow> Inl (SyntaxError t))"

definition falsy_json :: "string \<Rightarrow> bool" where
  \<comment> \<open>the JSON values that are falsy: \<open>null\<close>, \<open>false\<close>, \<open>0\<close> and the empty string\<close>
  "falsy_json j = (j \<in> set [''null'', ''false'', ''0'', [CHR 0x22, CHR 0x22]])"

text \<open>
  A row of the table \<open>markets\<close>, one field per column; \<^const>\<open>None\<close> is \<open>NULL\<close>. The
  column \<open>question\<close> is declared \<open>NOT NULL\<close>. The address is a string: a record without
  one is outside the model.
\<close>

record row =
  col_address :: string
  col_question :: string
  col_category :: "string option"
  col_category_key :: "string option"
  col_creation_time :: "int option"
  col_creation_signature :: "string option"
  col_initial_liquidity :: "string option"
  col_duration_days :: "int option"
  col_end_time :: "int option"
  col_status :: "string option"
  col_outcome :: "string option"
  col_volume :: "string option"
  col_resolution_time :: "int option"
  col_metadata :: "column_text option"

text \<open>
  The value of a row of \<open>daemon_state\<close>, at the shape the daemon writes under its key.
\<close>

record daemon_state =
  state_iterationCount :: jsnum
  state_lastRunTime :: int
  state_schedule :: string
  state_marketsPerRound :: int

record webhook_event =
  ev_id :: nat
  ev_type :: "string option"
  ev_signature :: "string option"
  ev_data :: "string option"
  ev_processed :: bool
  ev_timestamp :: "int option"

record store =
  markets :: "row list"
  daemon_states :: "(string \<times> daemon_state \<times> int) list"
  webhook_events :: "webhook_event list"

definition empty_store :: store where
  "empty_store = \<lparr>markets = [], daemon_states = [], webhook_events = []\<rparr>"

subsection \<open>Saving and reading records\<close>

definition insert_or_replace :: "row \<Rightarrow> row list \<Rightarrow> row list" where
  \<comment> \<open>\<^verbatim>\<open>INSERT OR REPLACE\<close>: rows in conflict on the primary key are deleted, then the
      new row is inserted\<close>
  "insert_or_replace r tbl = filter (\<lambda>old. col_address old \<noteq> col_address r) tbl @ [r]"

text \<open>
  \<open>_rowToMarket\<close>: every column is copied but the metadata, which is parsed unless it
  is \<open>NULL\<close> or empty; the exception of the parser is the exception of the call.
\<close>

definition rowToMarket :: "row \<Rightarrow> js_error + market" where
  "rowToMarket r =
     (case (case col_metadata r of
              None \<Rightarrow> Inr ''{}''
            | Some c \<Rightarrow> if text_of c = [] then Inr ''{}'' else JSON_parse c) of
        Inl e \<Rightarrow> Inl e
      | Inr parsed \<Rightarrow> Inr
     \<lparr>address = col_address r,
      question = Some (col_question r),
      category = col_category r,
      categoryKey = col_category_key r,
      creationTime = read_num (col_creation_time r),
      creationSignature = col_creation_signature r,
      initialLiquidity = map_option Text (col_initial_liquidity r),
      durationDays = read_num (col_duration_days r),
      endTime = read_num (col_end_time r),
      status = col_status r,
      outcome = col_outcome r,
      volume = map_option Text (col_volume r),
      resolutionTime = read_num (col_resolution_time r),
      metadata = Some parsed\<rparr>)"

definition getMarket :: "string \<Rightarrow> store \<Rightarrow> js_error + market option" where
  \<comment> \<open>\<open>null\<close>, here \<^const>\<open>None\<close>, without a row for the address\<close>
  "getMarket a s =
     (case find (\<lambda>r. col_address r = a) (markets s) of
        None \<Rightarrow> Inr None
      | Some r \<Rightarrow> (case rowToMarket r of Inl e \<Rightarrow> Inl e | Inr m \<Rightarrow> Inr (Some m)))"

definition market_row :: "int \<Rightarrow> market \<Rightarrow> string \<Rightarrow> row" where
  \<comment> \<open>the fourteen values \<open>saveMarket\<close> binds, for a record with question \<open>q\<close>\<close>
  "market_row now rec q =
     \<lparr>col_address = address rec,
      col_question = q,
      col_category = or_null (category rec),
      col_category_key = or_null (categoryKey rec),
      col_creation_time =
        (if truthy (creationTime rec) then bind_num (creationTime rec) else Some now),
      col_creation_signature = or_null (creationSignature rec),
      col_initial_liquidity = amount_text (initialLiquidity rec),
      col_duration_days =
        (if truthy (durationDays rec) then bind_num (durationDays rec) else None),
      col_end_time =
        (if truthy (endTime rec) then bind_num (endTime rec)
         else js_plus (to_number (creationTime rec))
                (js_times (js_times (js_times (js_times (to_number (durationDays rec))
                   (Some 24)) (Some 60)) (Some 60)) (Some 1000))),
      col_status = (case or_null (status rec) of None \<Rightarrow> Some ''active'' | Some t \<Rightarrow> Some t),
      col_outcome = or_null (outcome rec),
      col_volume = amount_text (volume rec),
      col_resolution_time =
        (if truthy (resolutionTime rec) then bind_num (resolutionTime rec) else None),
      col_metadata =
        Some (JSON_text (case metadata rec of
                           None \<Rightarrow> ''{}''
                         | Some j \<Rightarrow> if falsy_json j then ''{}'' else j))\<rparr>"

text \<open>
  \<open>saveMarket\<close> at clock reading \<open>now\<close>: the store afterwards, and what the call
  returns or throws. A record without a question violates the \<open>NOT NULL\<close> constraint:
  the statement throws and the table is left as it was. Otherwise the row is written and
  the call ends as \<open>getMarket\<close> for the address does. The event the function emits has
  no listener in this model.
\<close>

definition saveMarket ::
  "int \<Rightarrow> market \<Rightarrow> store \<Rightarrow> store \<times> (js_error + market option)" where
  "saveMarket now rec s =
     (case question rec of
        None \<Rightarrow> (s, Inl (Error ''NOT NULL constraint failed: markets.question''))
      | Some q \<Rightarrow>
          (let s' = s\<lparr>markets := insert_or_replace (market_row now rec q) (markets s)\<rparr>
           in (s', getMarket (address rec) s')))"

text \<open>
  A record as the store's tests save it: address, question, creation time and duration;
  every other field is absent.
\<close>

definition plain_market :: "string \<Rightarrow> string \<Rightarrow> int \<Rightarrow> int \<Rightarrow> market" where
  "plain_market a q t d =
     \<lparr>address = a, question = Some q, category = None, categoryKey = None,
      creationTime = Num t, creationSignature = None, initialLiquidity = None,
      durationDays = Num d, endTime = Undefined, status = None, outcome = None,
      volume = None, resolutionTime = Undefined, metadata = None\<rparr>"

record options =
  opt_status :: "string option"
  opt_category :: "string option"
  opt_since :: "int option"
  opt_until :: "int option"
  opt_limit :: "nat option"
  opt_offset :: "nat option"

definition no_options :: options where
  "no_options = \<lparr>opt_status = None, opt_category = None, opt_since = None, opt_until = None,
                  opt_limit = None, opt_offset = None\<rparr>"

definition set_int :: "int option \<Rightarrow> bool" where
  "set_int x = (x \<noteq> None \<and> x \<noteq> Some 0)"

definition set_nat :: "nat option \<Rightarrow> bool" where
  "set_nat x = (x \<noteq> None \<and> x \<noteq> Some 0)"

definition newest_first :: "row list \<Rightarrow> row list" where
  \<comment> \<open>\<^verbatim>\<open>ORDER BY creation_time DESC\<close>; \<open>NULL\<close> sorts below every number\<close>
  "newest_first rows = rev (sort_key col_creation_time rows)"

fun rows_to_markets :: "row list \<Rightarrow> js_error + market list" where
  \<comment> \<open>\<^verbatim>\<open>rows.map(row => this._rowToMarket(row))\<close>: the first row that fails ends the call\<close>
  "rows_to_markets [] = Inr []"
| "rows_to_markets (r # rest) =
     (case rowToMarket r of
        Inl e \<Rightarrow> Inl e
      | Inr m \<Rightarrow> (case rows_to_markets rest of Inl e \<Rightarrow> Inl e | Inr found \<Rightarrow> Inr (m # found)))"

definition getAllMarkets :: "options \<Rightarrow> store \<Rightarrow> js_error + market list" where
  "getAllMarkets opts s =
     (let rows1 = filter (\<lambda>r. or_null (opt_status opts) = None \<or> col_status r = opt_status opts)
                    (markets s);
          rows2 = filter (\<lambda>r. or_null (opt_category opts) = None
                              \<or> col_category_key r = opt_category opts) rows1;
          rows3 = filter (\<lambda>r. \<not> set_int (opt_since opts)
                              \<or> (col_creation_time r \<noteq> None
                                  \<and> col_creation_time r \<ge> opt_since opts)) rows2;
          rows4 = filter (\<lambda>r. \<not> set_int (opt_until opts)
                              \<or> (col_creation_time r \<noteq> None
                                  \<and> col_creation_time r \<le> opt_until opts)) rows3;
          sorted_rows = newest_first rows4;
          page = (if set_nat (opt_limit opts)
                  then take (the (opt_limit opts))
                         (if set_nat (opt_offset opts) then drop (the (opt_offset opts)) sorted_rows
                          else sorted_rows)
                  else sorted_rows)
      in rows_to_markets page)"

subsection \<open>Daemon state\<close>

definition saveState :: "int \<Rightarrow> string \<Rightarrow> daemon_state \<Rightarrow> store \<Rightarrow> store" where
  \<comment> \<open>\<^verbatim>\<open>saveState(key, value)\<close>, the call with a key\<close>
  "saveState now key v s =
     s\<lparr>daemon_states := filter (\<lambda>(k, _). k \<noteq> key) (daemon_states s) @ [(key, v, now)]\<rparr>"

definition saveState_object :: "int \<Rightarrow> daemon_state \<Rightarrow> store \<Rightarrow> store" where
  \<comment> \<open>\<^verbatim>\<open>saveState(stateObject)\<close>, the call with an object\<close>
  "saveState_object now v s = saveState now ''__full_state__'' v s"

definition getState :: "string \<Rightarrow> store \<Rightarrow> daemon_state option" where
  "getState key s =
     map_option fst
       (map_of (daemon_states s) (if key \<noteq> [] then key else ''__full_state__''))"

subsection \<open>Clear, export and import\<close>

definition clear :: "store \<Rightarrow> store" where
  "clear s = s\<lparr>markets := [], daemon_states := [], webhook_events := []\<rparr>"

text \<open>
  \<open>export\<close> serialises a snapshot and \<open>import\<close> parses one. The JSON text of a
  snapshot is modelled by the value it denotes: serialising and then parsing a snapshot
  gives the snapshot back. \<^const>\<open>None\<close> for the record list stands for a document without
  the field \<open>markets\<close>, and \<open>Malformed\<close> for text that \<^verbatim>\<open>JSON.parse\<close> rejects or that
  denotes \<open>null\<close>, whose fields cannot be read. The values of \<open>daemon_state\<close> are parsed
  by \<open>export\<close> as well; they are written by \<open>saveState\<close> only, as JSON text, and are
  kept as the values they denote. The snapshot lists them by key, without merging the
  value under \<^verbatim>\<open>__full_state__\<close> into the others.
\<close>

record snapshot =
  snap_markets :: "market list option"
  snap_state :: "(string \<times> daemon_state) list"
  snap_events :: "webhook_event list"

datatype json_text = Malformed | Document snapshot

definition export :: "store \<Rightarrow> js_error + json_text" where
  "export s =
     (case getAllMarkets no_options s of
        Inl e \<Rightarrow> Inl e
      | Inr found \<Rightarrow>
          Inr (Document
            \<lparr>snap_markets = Some found,
             snap_state = map (\<lambda>(k, v, _). (k, v)) (daemon_states s),
             snap_events = take 1000 (rev (sort_key ev_timestamp (webhook_events s)))\<rparr>))"

text \<open>
  The loop of \<open>import\<close>; the \<open>i\<close>-th call of \<open>saveMarket\<close> reads the clock as \<open>clock i\<close>.
  An exception ends the loop: \<open>import\<close> returns \<open>false\<close> and the records saved so far
  stay.
\<close>

fun import_loop :: "(nat \<Rightarrow> int) \<Rightarrow> nat \<Rightarrow> market list \<Rightarrow> store \<Rightarrow> bool \<times> store" where
  "import_loop clock i [] s = (True, s)"
| "import_loop clock i (m # rest) s =
     (case saveMarket (clock i) m s of
        (s', Inl _) \<Rightarrow> (False, s')
      | (s', Inr _) \<Rightarrow> import_loop clock (Suc i) rest s')"

definition import :: "(nat \<Rightarrow> int) \<Rightarrow> json_text \<Rightarrow> store \<Rightarrow> bool \<times> store" where
  "import clock jsonString s =
     (case jsonString of
        Malformed \<Rightarrow> (False, s)
      | Document data \<Rightarrow>
          (case snap_markets data of
             None \<Rightarrow> (True, s)
           | Some records \<Rightarrow> import_loop clock 0 records s))"

text \<open>The identifiers in a store, each with its question text.\<close>

definition identified_questions :: "store \<Rightarrow> (string \<times> string) set" where
  "identified_questions s = set (map (\<lambda>r. (col_address r, col_question r)) (markets s))"

definition unique_addresses :: "store \<Rightarrow> bool" where
  \<comment> \<open>the primary key of \<open>markets\<close>: no two rows share an address\<close>
  "unique_addresses s = distinct (map col_address (markets s))"

definition json_metadata :: "store \<Rightarrow> bool" where
  \<comment> \<open>every metadata column is \<open>NULL\<close>, empty or JSON text, as \<open>saveMarket\<close> leaves it\<close>
  "json_metadata s =
     list_all (\<lambda>r. case col_metadata r of
                       Some (Other_text t) \<Rightarrow> t = []
                     | _ \<Rightarrow> True) (markets s)"

definition store_with :: "market list \<Rightarrow> store" where
  \<comment> \<open>the store after saving the given records, in order, into an empty one\<close>
  "store_with records = snd (import_loop (\<lambda>i. 0) 0 records empty_store)"

subsection \<open>Performance metrics\<close>

text \<open>
  The volume total is computed by the database, \<^verbatim>\<open>SUM(CAST(volume AS INTEGER))\<close>, on
  64-bit integers: the cast reads the longest integer prefix of the text (0 without one)
  and clamps it to the 64-bit range; the sum skips \<open>NULL\<close>, is \<open>NULL\<close> without any
  value, and fails on overflow. The driver hands the total over as a JavaScript number,
  that is the nearest double, before \<open>BigInt\<close> sees it.
\<close>

definition INT64_MAX :: int where
  "INT64_MAX = 9223372036854775807"

definition INT64_MIN :: int where
  "INT64_MIN = - 9223372036854775808"

definition sqlite_space :: "char \<Rightarrow> bool" where
  \<comment> \<open>space, tab, line feed, vertical tab, form feed, carriage return\<close>
  "sqlite_space c = (c \<in> set [CHR 0x20, CHR 0x09, CHR 0x0A, CHR 0x0B, CHR 0x0C, CHR 0x0D])"

definition cast_integer :: "string \<Rightarrow> int" where
  "cast_integer t =
     (case integer_prefix sqlite_space t of
        None \<Rightarrow> 0
      | Some v \<Rightarrow> max INT64_MIN (min INT64_MAX v))"

fun sum_int64 :: "int option \<Rightarrow> int list \<Rightarrow> js_error + int option" where
  "sum_int64 acc [] = Inr acc"
| "sum_int64 acc (v # vs) =
     (let t = (case acc of None \<Rightarrow> v | Some a \<Rightarrow> a + v)
      in if t < INT64_MIN \<or> INT64_MAX < t then Inl (Error ''integer overflow'')
         else sum_int64 (Some t) vs)"

text \<open>
  The quotients of \<open>getPerformanceMetrics\<close> are doubles that need not hold integers. A
  double is modelled by the rational it holds, and \<open>fl\<close> rounds the exact result of an
  operation to the nearest double: with \<open>2^e \<le> \<bar>x\<bar> < 2^(e+1)\<close> the doubles around \<open>x\<close>
  are the multiples of \<open>2^(e-52)\<close>, and \<open>x\<close> goes to the nearest one, to the one with the
  even multiplier when it lies halfway. The range of the exponent is not limited here:
  the quotients of this program are far from the smallest and the largest double.
\<close>

definition pow2 :: "int \<Rightarrow> rat" where
  "pow2 k = (if 0 \<le> k then 2 ^ nat k else 1 / 2 ^ nat (- k))"

definition binade :: "rat \<Rightarrow> int" where
  \<comment> \<open>for a positive \<open>x\<close>, the \<open>e\<close> with \<open>2^e \<le> x < 2^(e+1)\<close>: one of the two candidates
      that the bit lengths of numerator and denominator leave\<close>
  "binade x =
     (case quotient_of x of
        (a, b) \<Rightarrow> (let k = bitlen a - bitlen b in if pow2 k \<le> x then k else k - 1))"

definition round_even :: "rat \<Rightarrow> int" where
  \<comment> \<open>the nearest integer, halves to the even one\<close>
  "round_even x =
     (let f = \<lfloor>x\<rfloor>; r = x - of_int f
      in if r < 1 / 2 then f
         else if 1 / 2 < r then f + 1
         else if even f then f else f + 1)"

definition fl :: "rat \<Rightarrow> rat" where
  "fl x =
     (if x = 0 then 0
      else (let u = pow2 (binade \<bar>x\<bar> - 52)
            in sgn x * of_int (round_even (\<bar>x\<bar> / u)) * u))"

definition Math_round :: "rat \<Rightarrow> int" where
  \<comment> \<open>\<^verbatim>\<open>Math.round\<close>: the nearest integer, halves upwards\<close>
  "Math_round x = \<lfloor>x + 1 / 2\<rfloor>"

text \<open>
  The result of \<open>getPerformanceMetrics\<close>; \<open>resolutionRate\<close> is the rational that the
  double holds.
\<close>

record metrics =
  totalVolume :: string
  averageDuration :: int
  resolutionRate :: rat
  marketCount :: nat

definition getPerformanceMetrics :: "store \<Rightarrow> js_error + metrics" where
  "getPerformanceMetrics s =
     (let resolved = filter (\<lambda>r. col_status r = Some ''resolved'') (markets s) in
      case sum_int64 None (map cast_integer (List.map_filter col_volume (markets s))) of
        Inl e \<Rightarrow> Inl e
      | Inr volumeResult \<Rightarrow>
          (let totalVolume = (case volumeResult of None \<Rightarrow> 0 | Some t \<Rightarrow> to_double t);
               totalDays =
                 foldl (\<lambda>sum m. to_double (sum + (case col_duration_days m of
                                                        Some d \<Rightarrow> d | None \<Rightarrow> 0))) 0 resolved;
               averageDuration =
                 (if length resolved > 0
                  then fl (of_int totalDays / of_nat (length resolved))
                  else 0);
               total = length (markets s);
               rate = (if total > 0 then fl (of_nat (length resolved) / of_nat total) else 0)
           in Inr \<lparr>totalVolume = dec totalVolume,
                    averageDuration = Math_round averageDuration,
                    resolutionRate = fl (of_int (Math_round (fl (rate * 100))) / 100),
                    marketCount = length resolved\<rparr>))"

text \<open>
  The exact total of a population's volumes, given as the integers they denote
  (\<^const>\<open>None\<close> for a record without volume).
\<close>

definition exact_total :: "int option list \<Rightarrow> int" where
  "exact_total vs = sum_list (map (\<lambda>v. case v of None \<Rightarrow> 0 | Some n \<Rightarrow> n) vs)"

section \<open>Daemon orchestrator\<close>

text \<open>
  The constructor of the store takes the path of the database file. What a caller passes
  for it is nothing or \<open>null\<close>, a string, or a value of another type, such as the
  configuration object that the daemon passes. \<open>files\<close> gives the content of the
  database file at a path, \<^const>\<open>None\<close> where there is no file yet. The constructor asks
  \<^verbatim>\<open>dirname\<close> for the directory of every path that is truthy and not \<^verbatim>\<open>:memory:\<close>,
  and \<^verbatim>\<open>dirname\<close> throws on what is not a string. Creating the directory and opening
  the file are taken to succeed.
\<close>

datatype db_path = No_path | Path string | Config_object "string option"

definition new_MarketStore :: "(string \<Rightarrow> store option) \<Rightarrow> db_path \<Rightarrow> js_error + store" where
  "new_MarketStore files dbPath =
     (case dbPath of
        No_path \<Rightarrow> Inr empty_store
      | Path p \<Rightarrow>
          (if p = [] \<or> p = '':memory:'' then Inr empty_store
           else Inr (case files p of None \<Rightarrow> empty_store | Some content \<Rightarrow> content))
      | Config_object _ \<Rightarrow>
          Inl (TypeError (''The '' @ [CHR 0x22] @ ''path'' @ [CHR 0x22]
                 @ '' argument must be of type string. Received an instance of Object'')))"

text \<open>
  Of the daemon object the model keeps the configuration, the running flag, the iteration
  counter and the store. The agent that creates markets is outside the repository's
  files: what \<open>createBatchMarkets\<close> yields in a cycle is the parameter \<open>batch\<close>
  (\<^const>\<open>None\<close> when the call fails). News monitoring and webhooks are off, and events
  have no listener.
\<close>

record batch_result =
  br_success :: bool
  br_market :: string
  br_question :: "string option"
  br_category :: "string option"
  br_categoryKey :: "string option"
  br_signature :: "string option"
  br_liquidity :: "amount option"
  br_durationDays :: jsnum

record daemon =
  cfg_schedule :: string
  cfg_maxIterations :: "int option"
  cfg_marketsPerRound :: int
  cfg_dryRun :: bool
  cfg_storagePath :: "string option"
  isRunning :: bool
  iterationCount :: int
  daemon_store :: "store option"

definition new_daemon :: "string \<Rightarrow> int option \<Rightarrow> int \<Rightarrow> bool \<Rightarrow> string option \<Rightarrow> daemon" where
  "new_daemon sched maxIt perRound dry path =
     \<lparr>cfg_schedule = sched, cfg_maxIterations = maxIt, cfg_marketsPerRound = perRound,
      cfg_dryRun = dry, cfg_storagePath = path, isRunning = False, iterationCount = 0,
      daemon_store = None\<rparr>"

definition daemon_saveState :: "int \<Rightarrow> daemon \<Rightarrow> daemon" where
  "daemon_saveState now d =
     (case daemon_store d of
        None \<Rightarrow> d
      | Some s \<Rightarrow>
          d\<lparr>daemon_store := Some (saveState now ''daemon''
               \<lparr>state_iterationCount = Num (iterationCount d), state_lastRunTime = now,
                state_schedule = cfg_schedule d,
                state_marketsPerRound = cfg_marketsPerRound d\<rparr> s)\<rparr>)"

definition restoreState :: "daemon \<Rightarrow> daemon" where
  "restoreState d =
     (case daemon_store d of
        None \<Rightarrow> d
      | Some s \<Rightarrow>
          (case getState ''daemon'' s of
             None \<Rightarrow> d
           | Some state \<Rightarrow>
               d\<lparr>iterationCount :=
                    (case state_iterationCount state of
                       Num n \<Rightarrow> (if n \<noteq> 0 then n else 0)
                     | _ \<Rightarrow> 0)\<rparr>))"

definition daemon_stop :: "int \<Rightarrow> daemon \<Rightarrow> daemon" where
  \<comment> \<open>of \<open>stop\<close>: the guard, the final save of the state and the flag\<close>
  "daemon_stop now d =
     (if \<not> isRunning d then d else (daemon_saveState now d)\<lparr>isRunning := False\<rparr>)"

definition cycle_metadata :: "int \<Rightarrow> string" where
  "cycle_metadata iteration =
     ''{'' @ [CHR 0x22] @ ''newsContext'' @ [CHR 0x22] @ '':null,''
       @ [CHR 0x22] @ ''iteration'' @ [CHR 0x22] @ '':'' @ dec iteration @ ''}''"

fun save_results :: "int \<Rightarrow> int \<Rightarrow> batch_result list \<Rightarrow> store \<Rightarrow> bool \<times> store" where
  "save_results now iteration [] s = (True, s)"
| "save_results now iteration (r # rest) s =
     (if br_success r
      then (case saveMarket now
                   \<lparr>address = br_market r, question = br_question r,
                    category = br_category r, categoryKey = br_categoryKey r,
                    creationTime = Num now, creationSignature = br_signature r,
                    initialLiquidity = br_liquidity r, durationDays = br_durationDays r,
                    endTime = Undefined, status = Some ''active'', outcome = None,
                    volume = None, resolutionTime = Undefined,
                    metadata = Some (cycle_metadata iteration)\<rparr> s of
              (s', Inl _) \<Rightarrow> (False, s')
            | (s', Inr _) \<Rightarrow> save_results now iteration rest s')
      else save_results now iteration rest s)"

definition max_reached :: "daemon \<Rightarrow> bool" where
  \<comment> \<open>\<^verbatim>\<open>maxIterations && iterationCount >= maxIterations\<close>\<close>
  "max_reached d =
     (case cfg_maxIterations d of
        None \<Rightarrow> False
      | Some m \<Rightarrow> m \<noteq> 0 \<and> iterationCount d \<ge> m)"

definition executeCycle :: "int \<Rightarrow> batch_result list option \<Rightarrow> daemon \<Rightarrow> daemon" where
  "executeCycle now batch d =
     (if max_reached d then daemon_stop now d
      else
        (let d1 = d\<lparr>iterationCount := to_double (iterationCount d + 1)\<rparr> in
         if cfg_dryRun d1 then daemon_saveState now d1
         else
           (case (batch, daemon_store d1) of
              (Some results, Some s) \<Rightarrow>
                (case save_results now (iterationCount d1) results s of
                   (True, s') \<Rightarrow> daemon_saveState now (d1\<lparr>daemon_store := Some s'\<rparr>)
                 | (False, s') \<Rightarrow> d1\<lparr>daemon_store := Some s'\<rparr>)
            | _ \<Rightarrow> d1)))"

text \<open>
  \<open>start\<close> of the daemon: the exception it ends with, if any, and the daemon object
  afterwards. \<open>agent_failure\<close> is the exception that creating and initialising the agent
  ends with, if any. The store is constructed from an object that holds the configured
  path, then the state is restored. Setting up the shutdown handlers and the health
  monitor is left out. The one task that \<open>start\<close> registers with the scheduler runs
  immediately, so the first cycle begins inside \<open>start\<close>, before the running flag is set;
  the model lets it run to its end there.
\<close>

definition daemon_start ::
  "js_error option \<Rightarrow> (string \<Rightarrow> store option) \<Rightarrow> int \<Rightarrow> batch_result list option \<Rightarrow> daemon
     \<Rightarrow> js_error option \<times> daemon" where
  "daemon_start agent_failure files now batch d =
     (if isRunning d then (Some (Error ''Daemon is already running''), d)
      else
        (case agent_failure of
           Some e \<Rightarrow> (Some e, d)
         | None \<Rightarrow>
             (case new_MarketStore files (Config_object (cfg_storagePath d)) of
                Inl e \<Rightarrow> (Some e, d)
              | Inr opened \<Rightarrow>
                  (let d1 = restoreState (d\<lparr>daemon_store := Some opened\<rparr>) in
                   case addTask ''market-creation'' (cfg_schedule d1) (Some (AsyncFn Resolves))
                          True True new_scheduler of
                     Inl e \<Rightarrow> (Some e, d1)
                   | Inr _ \<Rightarrow> (None, (executeCycle now batch d1)\<lparr>isRunning := True\<rparr>)))))"

section \<open>Properties\<close>

subsection \<open>Schedule parsing\<close>

lemma split_on_no_separator: "d \<notin> set s \<Longrightarrow> split_on d s = [s]"
  by (induction s) auto

lemma digit_not_space: "is_digit c \<Longrightarrow> \<not> is_space c"
  by (auto simp: is_digit_def is_space_def)

lemma digit_not_sign: "is_digit c \<Longrightarrow> c \<noteq> CHR ''-'' \<and> c \<noteq> CHR ''+''"
  by (auto simp: is_digit_def)

lemma takeWhile_all: "list_all P xs \<Longrightarrow> takeWhile P xs = xs"
  by (induction xs) auto

lemma to_double_safe: "\<bar>n\<bar> < 2 ^ 53 \<Longrightarrow> to_double n = n"
  by (simp add: to_double_def)

lemma digits_value_acc_nonneg: "0 \<le> acc \<Longrightarrow> 0 \<le> foldl (\<lambda>acc c. 10 * acc + digit_val c) acc ds"
proof (induction ds arbitrary: acc)
  case Nil
  then show ?case by simp
next
  case (Cons c cs)
  have "0 \<le> digit_val c"
    by (auto simp: digit_val_def split: option.splits dest!: map_of_SomeD)
  with Cons.prems have "0 \<le> 10 * acc + digit_val c" by simp
  then show ?case using Cons.IH by simp
qed

lemma digits_value_nonneg: "0 \<le> digits_value ds"
  unfolding digits_value_def by (rule digits_value_acc_nonneg) simp

lemma parseInt_digits:
  assumes "ds \<noteq> []" and "list_all is_digit ds"
  shows "parseInt ds = Some (to_double (digits_value ds))"
proof -
  from assms obtain c cs where ds: "ds = c # cs" and c: "is_digit c"
    by (cases ds) auto
  have dw: "dropWhile is_space ds = ds"
    using ds c by (simp add: digit_not_space)
  have sg: "hd ds \<noteq> CHR ''-''" "hd ds \<noteq> CHR ''+''"
    using ds c digit_not_sign by auto
  have tw: "takeWhile is_digit ds = ds"
    using assms(2) by (rule takeWhile_all)
  show ?thesis
    unfolding parseInt_def integer_prefix_def Let_def dw using sg assms(1) by (simp add: tw)
qed

lemma match_interval_digits_unit:
  assumes "ds \<noteq> []" and "list_all is_digit ds" and "u \<in> set ''smhdSMHD''"
  shows "match_interval (ds @ [u]) = Some (ds, u)"
  using assms by (simp add: match_interval_def)

lemma digits_no_star_space:
  assumes "list_all is_digit ds" and "u \<in> set ''smhdSMHD''"
  shows "CHR ''*'' \<notin> set (ds @ [u])" and "CHR '' '' \<notin> set (ds @ [u])"
proof -
  have nd: "\<not> is_digit CHR ''*''" "\<not> is_digit CHR '' ''"
    by (simp_all add: is_digit_def)
  have "CHR ''*'' \<notin> set ds" "CHR '' '' \<notin> set ds"
    using assms(1) nd by (auto simp: list_all_iff)
  moreover have "u \<noteq> CHR ''*''" "u \<noteq> CHR '' ''"
    using assms(2) by auto
  ultimately show "CHR ''*'' \<notin> set (ds @ [u])" and "CHR '' '' \<notin> set (ds @ [u])"
    by simp_all
qed

lemma parseSchedule_digits_unit:
  assumes "ds \<noteq> []" and "list_all is_digit ds" and "u \<in> set ''smhdSMHD''"
  shows "parseSchedule (ds @ [u]) =
           Inr (Interval (js_times (Some (to_double (digits_value ds))) (multipliers (lower_char u)))
                  (Some (ds @ [u])))"
proof -
  have "split_on CHR '' '' (ds @ [u]) = [ds @ [u]]"
    using digits_no_star_space(2)[OF assms(2,3)] by (rule split_on_no_separator)
  then show ?thesis
    using digits_no_star_space(1)[OF assms(2,3)] match_interval_digits_unit[OF assms]
      parseInt_digits[OF assms(1,2)]
    by (simp add: parseSchedule_def)
qed

lemma unit_multiplier:
  assumes "(u, m) \<in> set [(CHR ''s'', 1000), (CHR ''m'', 60000), (CHR ''h'', 3600000),
                          (CHR ''d'', 86400000 :: int)]"
  shows "u \<in> set ''smhdSMHD'' \<and> multipliers (lower_char u) = Some m"
proof -
  from assms consider "u = CHR ''s'' \<and> m = 1000" | "u = CHR ''m'' \<and> m = 60000"
    | "u = CHR ''h'' \<and> m = 3600000" | "u = CHR ''d'' \<and> m = 86400000"
    by auto
  then show ?thesis
    by cases (simp_all add: multipliers_def lower_char_def)
qed

text \<open>
  Claim C5, as the code has it. A string of one or more decimal digits followed by a unit
  \<open>s\<close>, \<open>m\<close>, \<open>h\<close> or \<open>d\<close>, where the number the digits denote times 1000, 60000,
  3600000 or 86400000 stays below \<open>2^53\<close>, parses to an interval of exactly that many
  milliseconds, and that keeps the string as \<open>original\<close>; every string that contains \<open>*\<close>
  parses to a cron schedule.
\<close>
theorem parseSchedule_interval_cron:
  "(ds \<noteq> [] \<and> list_all is_digit ds
      \<and> (u, m) \<in> set [(CHR ''s'', 1000), (CHR ''m'', 60000), (CHR ''h'', 3600000),
                       (CHR ''d'', 86400000)]
      \<and> digits_value ds * m < 2 ^ 53
    \<longrightarrow> parseSchedule (ds @ [u]) = Inr (Interval (Some (digits_value ds * m)) (Some (ds @ [u]))))
   \<and> (CHR ''*'' \<in> set s \<longrightarrow> parseSchedule s = Inr (Cron s))"
proof (intro conjI impI)
  assume h: "ds \<noteq> [] \<and> list_all is_digit ds
      \<and> (u, m) \<in> set [(CHR ''s'', 1000), (CHR ''m'', 60000), (CHR ''h'', 3600000),
                       (CHR ''d'', 86400000)]
      \<and> digits_value ds * m < 2 ^ 53"
  then have ds: "ds \<noteq> []" "list_all is_digit ds" by blast+
  from h have um: "u \<in> set ''smhdSMHD''" "multipliers (lower_char u) = Some m"
    using unit_multiplier[of u m] by blast+
  from h have m: "1 \<le> m" by auto
  from h have bound: "digits_value ds * m < 2 ^ 53" by blast
  have nonneg: "0 \<le> digits_value ds" by (rule digits_value_nonneg)
  have "digits_value ds * 1 \<le> digits_value ds * m"
    using nonneg m by (intro mult_left_mono) simp_all
  then have small: "\<bar>digits_value ds\<bar> < 2 ^ 53"
    using bound nonneg by simp
  have "0 \<le> digits_value ds * m" using nonneg m by simp
  then have product: "\<bar>digits_value ds * m\<bar> < 2 ^ 53"
    using bound by simp
  show "parseSchedule (ds @ [u]) = Inr (Interval (Some (digits_value ds * m)) (Some (ds @ [u])))"
    unfolding parseSchedule_digits_unit[OF ds um(1)] um(2) to_double_safe[OF small]
    by (simp add: js_times_def to_double_safe[OF product])
next
  assume "CHR ''*'' \<in> set s"
  then show "parseSchedule s = Inr (Cron s)"
    by (simp add: parseSchedule_def)
qed

text \<open>Claim C5, at \<open>30m\<close> (1,800,000 ms) and at \<open>* * * * *\<close>.\<close>
theorem parseSchedule_interval_cron_witness:
  "parseSchedule ''30m'' = Inr (Interval (Some 1800000) (Some ''30m''))
   \<and> parseSchedule ''* * * * *'' = Inr (Cron ''* * * * *'')"
  using parseSchedule_interval_cron [of "''30''" "CHR ''m''" 60000 "''* * * * *''"]
  by (simp add: is_digit_def digits_value_def digit_val_def)

text \<open>
  Claim C5 as the specification words it, with \<open>ms = n \<times> multiplier\<close> for every valid
  interval string, fails where the product needs more than 53 bits: the numbers of the
  code are doubles. For \<open>9007199254740993s\<close> the digits are read as 9007199254740992 and
  the interval is 9007199254740992000 ms, not 9007199254740993000.
\<close>
theorem parseSchedule_interval_rounds:
  "parseSchedule ''9007199254740993s''
     = Inr (Interval (Some 9007199254740992000) (Some ''9007199254740993s''))
   \<and> digits_value ''9007199254740993'' * 1000 = 9007199254740993000"
  by code_simp

text \<open>
  Claim C4, at strings that are neither cron expressions, nor \<^verbatim>\<open><integer><unit>\<close>, nor
  plain non-negative integers: \<open>parseSchedule\<close> does not fail on them. It returns an
  interval of \<open>-5\<close> ms for \<open>-5\<close>, of 1 ms for \<open>1.5h\<close> and of 12 ms for \<open>12abc\<close>,
  since \<^verbatim>\<open>parseInt\<close> accepts a sign and stops at the first character that is not a digit.
\<close>
theorem parseSchedule_accepts_integer_prefix:
  "parseSchedule ''-5'' = Inr (Interval (Some (- 5)) None)
   \<and> parseSchedule ''1.5h'' = Inr (Interval (Some 1) None)
   \<and> parseSchedule ''12abc'' = Inr (Interval (Some 12) None)"
  by code_simp

text \<open>
  Where \<^verbatim>\<open>parseInt\<close> finds no number either, the call fails and the message holds the
  string.
\<close>
lemma parseSchedule_error:
  assumes "CHR ''*'' \<notin> set s" and "length (split_on CHR '' '' s) < 5"
    and "match_interval s = None" and "parseInt s = None"
  shows "parseSchedule s = Inl (Error (invalid_schedule_message s))
         \<and> str_includes (invalid_schedule_message s) s"
proof -
  have "sublist s (''Invalid schedule format: '' @ s @ (''. Use cron expression or interval (e.g., ''
       @ [CHR 0x22] @ ''5m'' @ [CHR 0x22] @ '', '' @ [CHR 0x22] @ ''1h'' @ [CHR 0x22] @ '')''))"
    by (rule sublist_appendI)
  then have "str_includes (invalid_schedule_message s) s"
    by (simp add: str_includes_def invalid_schedule_message_def)
  then show ?thesis
    using assms by (simp add: parseSchedule_def)
qed

text \<open>A no-break space in front of the digits is skipped like any white space.\<close>
lemma parseSchedule_no_break_space:
  "parseSchedule [CHR 0xA0, CHR ''5''] = Inr (Interval (Some 5) None)"
  by code_simp

lemma parseSchedule_error_witness:
  "parseSchedule ''invalid'' = Inl (Error (invalid_schedule_message ''invalid''))
   \<and> str_includes (invalid_schedule_message ''invalid'') ''invalid''"
proof -
  have "CHR ''*'' \<notin> set ''invalid''" "length (split_on CHR '' '' ''invalid'') < 5"
    "match_interval ''invalid'' = None" "parseInt ''invalid'' = None"
    by code_simp+
  then show ?thesis by (rule parseSchedule_error)
qed

subsection \<open>Starting the scheduler\<close>

lemma running_executeTask: "running (executeTask now who name s) = running s"
  by (simp add: executeTask_def Let_def split: option.splits task_fn.splits outcome.splits)

lemma running_scheduleNext: "running (scheduleNext cronNext now name s) = running s"
  by (simp add: scheduleNext_def split: option.splits schedule.splits)

lemma running_start_task: "running (start_task cronNext now s name) = running s"
  by (simp add: start_task_def running_scheduleNext running_executeTask split: option.splits)

lemma running_foldl_start_task:
  "running (foldl (start_task cronNext now) s names) = running s"
  by (induction names arbitrary: s) (simp_all add: running_start_task)

lemma running_start: "running (start cronNext now s)"
  by (simp add: start_def running_foldl_start_task)

text \<open>
  Claim C10. On a scheduler that is already running \<open>start\<close> changes nothing: tasks, run
  counts, timers, pending calls and history are as before. So a second \<open>start\<close> right
  after a first one is without effect.
\<close>
theorem start_idempotent:
  "(running s \<longrightarrow> start cronNext now s = s)
   \<and> start cronNext now' (start cronNext now s) = start cronNext now s"
proof
  show "running s \<longrightarrow> start cronNext now s = s"
    by (simp add: start_def)
  have "running (start cronNext now s)"
    by (rule running_start)
  then show "start cronNext now' (start cronNext now s) = start cronNext now s"
    by (simp add: start_def)
qed

lemma market_creation_scheduler_eq:
  "market_creation_scheduler fn =
     new_scheduler\<lparr>tasks :=
       [(''market-creation'',
         \<lparr>schedule = Interval (Some 3600000) (Some ''1h''), originalSchedule = ''1h'',
          task = fn, runImmediately = True, enabled = True, lastRun = None, nextRun = None,
          runCount = 0, errors = []\<rparr>)]\<rparr>"
proof -
  have "parseSchedule ''1h'' = Inr (Interval (Some 3600000) (Some ''1h''))"
    by code_simp
  then show ?thesis
    by (simp add: market_creation_scheduler_def addTask_def new_scheduler_def)
qed

lemma first_start:
  "start cronNext 0 (market_creation_scheduler (AsyncFn Resolves)) =
     \<lparr>tasks =
        [(''market-creation'',
          \<lparr>schedule = Interval (Some 3600000) (Some ''1h''), originalSchedule = ''1h'',
           task = AsyncFn Resolves, runImmediately = True, enabled = True,
           lastRun = Some 0, nextRun = Some 3600000, runCount = 1, errors = []\<rparr>)],
      timers = [(''market-creation'', 0)], running = True,
      pending_timeouts = [(0, ''market-creation'', Some 3600000)], next_handle = 1,
      in_flight = [(''market-creation'', Resolves, FromStart)],
      history = [ActionStarted ''market-creation'', TimerArmed ''market-creation'']\<rparr>"
  by (simp add: market_creation_scheduler_eq start_def start_task_def executeTask_def
      scheduleNext_def new_scheduler_def to_double_def)

text \<open>
  Claim C10, at the daemon's scheduler: after the second \<open>start\<close> the task has still run
  once.
\<close>
theorem start_idempotent_witness:
  "running (start (\<lambda>e t. None) 0 (market_creation_scheduler (AsyncFn Resolves)))
   \<and> start (\<lambda>e t. None) 7 (start (\<lambda>e t. None) 0 (market_creation_scheduler (AsyncFn Resolves)))
       = start (\<lambda>e t. None) 0 (market_creation_scheduler (AsyncFn Resolves))
   \<and> runCount (the (map_of (tasks (start (\<lambda>e t. None) 7
         (start (\<lambda>e t. None) 0 (market_creation_scheduler (AsyncFn Resolves))))) ''market-creation'')) = 1"
  using start_idempotent [where s = "start (\<lambda>e t. None) 0 (market_creation_scheduler (AsyncFn Resolves))"
      and cronNext = "\<lambda>e t. None" and now = 7 and now' = 7]
  by (simp add: first_start)

text \<open>
  Claim C6, at the daemon's scheduler with an asynchronous action: when \<open>start\<close> returns,
  the timer of the task is armed and the immediate run is still suspended at its
  \<^verbatim>\<open>await\<close>; the action only finishes in a later turn, after the timer was armed.
\<close>
theorem start_arms_timer_while_action_pending:
  "history (start (\<lambda>e t. None) 0 (market_creation_scheduler (AsyncFn Resolves)))
     = [ActionStarted ''market-creation'', TimerArmed ''market-creation'']
   \<and> in_flight (start (\<lambda>e t. None) 0 (market_creation_scheduler (AsyncFn Resolves)))
     = [(''market-creation'', Resolves, FromStart)]
   \<and> pending_timeouts (start (\<lambda>e t. None) 0 (market_creation_scheduler (AsyncFn Resolves)))
     = [(0, ''market-creation'', Some 3600000)]
   \<and> history (settle (\<lambda>e t. None) 5 ''market-creation''
        (start (\<lambda>e t. None) 0 (market_creation_scheduler (AsyncFn Resolves))))
     = [ActionStarted ''market-creation'', TimerArmed ''market-creation'',
        ActionFinished ''market-creation'']"
  by (simp add: first_start settle_def)

text \<open>
  The same for every enabled task that runs immediately with an asynchronous action on
  an interval schedule: one pass of the loop of \<open>start\<close> leaves the call pending and arms
  the timer.
\<close>
lemma start_task_async:
  assumes "map_of (tasks s) name = Some config" and "enabled config"
    and "runImmediately config" and "task config = AsyncFn result"
    and "running s" and "schedule config = Interval m orig"
  shows "in_flight (start_task cronNext now s name) = in_flight s @ [(name, result, FromStart)]
         \<and> history (start_task cronNext now s name)
             = history s @ [ActionStarted name, TimerArmed name]
         \<and> map_of (timers (start_task cronNext now s name)) name = Some (next_handle s)"
  using assms
  by (simp add: start_task_def executeTask_def scheduleNext_def update_conv')

text \<open>
  The callback of a timer does wait: when the timer of the same task fires, the action
  starts; the next timer is armed only in the continuation, after the action has
  finished.
\<close>

lemma timer_callback_waits:
  "history (fire_timer (\<lambda>e t. None) 3600000 0
      (settle (\<lambda>e t. None) 5 ''market-creation''
         (start (\<lambda>e t. None) 0 (market_creation_scheduler (AsyncFn Resolves)))))
     = [ActionStarted ''market-creation'', TimerArmed ''market-creation'',
        ActionFinished ''market-creation'', ActionStarted ''market-creation'']
   \<and> history (settle (\<lambda>e t. None) 3600007 ''market-creation''
      (fire_timer (\<lambda>e t. None) 3600000 0
        (settle (\<lambda>e t. None) 5 ''market-creation''
           (start (\<lambda>e t. None) 0 (market_creation_scheduler (AsyncFn Resolves))))))
     = [ActionStarted ''market-creation'', TimerArmed ''market-creation'',
        ActionFinished ''market-creation'', ActionStarted ''market-creation'',
        ActionFinished ''market-creation'', TimerArmed ''market-creation'']"
  by (simp add: first_start settle_def fire_timer_def executeTask_def scheduleNext_def)

subsection \<open>Urgency of a text\<close>

lemma find_None_ex: "(find P xs = None) = (\<not> (\<exists>x\<in>set xs. P x))"
  by (auto simp: find_None_iff)

lemma determineUrgency_cases:
  "determineUrgency t =
     (if \<exists>k\<in>set URGENCY_breaking. str_includes t k then ''breaking''
      else if \<exists>k\<in>set URGENCY_timely. str_includes t k then ''timely''
      else ''evergreen'')"
proof (cases "find (\<lambda>keyword. str_includes t keyword) URGENCY_breaking")
  case None
  then have nb: "\<not> (\<exists>k\<in>set URGENCY_breaking. str_includes t k)"
    by (simp add: find_None_ex)
  show ?thesis
  proof (cases "find (\<lambda>keyword. str_includes t keyword) URGENCY_timely")
    case None
    then have "\<not> (\<exists>k\<in>set URGENCY_timely. str_includes t k)"
      by (simp add: find_None_ex)
    with nb \<open>find (\<lambda>keyword. str_includes t keyword) URGENCY_breaking = None\<close> None
    show ?thesis by (simp add: determineUrgency_def)
  next
    case (Some k)
    then have "\<exists>k\<in>set URGENCY_timely. str_includes t k"
      using find_None_ex[of "\<lambda>keyword. str_includes t keyword" URGENCY_timely] by auto
    with nb \<open>find (\<lambda>keyword. str_includes t keyword) URGENCY_breaking = None\<close> Some
    show ?thesis by (simp add: determineUrgency_def)
  qed
next
  case (Some k)
  then have "\<exists>k\<in>set URGENCY_breaking. str_includes t k"
    using find_None_ex[of "\<lambda>keyword. str_includes t keyword" URGENCY_breaking] by auto
  with Some show ?thesis by (simp add: determineUrgency_def)
qed

lemma urgency_scoreRelevance:
  "urgency (scoreRelevance weigh text sourceKeywords) = determineUrgency (toLowerCase text)"
  by (simp add: scoreRelevance_def Let_def split: prod.splits)

lemma str_includes_lower:
  assumes "str_includes text k" and "toLowerCase k = k"
  shows "str_includes (toLowerCase text) k"
proof -
  from assms(1) have "sublist (map lower_char k) (map lower_char text)"
    unfolding str_includes_def by (rule map_mono_sublist)
  then show ?thesis
    using assms(2) by (simp add: str_includes_def toLowerCase_def)
qed

lemma breaking_keywords_lower: "k \<in> set URGENCY_breaking \<Longrightarrow> toLowerCase k = k"
  by (auto simp: URGENCY_breaking_def toLowerCase_def lower_char_def)

text \<open>
  Claim C8. The urgency that \<open>scoreRelevance\<close> returns is \<open>breaking\<close> if the lower-cased
  text contains a breaking keyword, whether or not it also contains a timely one;
  otherwise \<open>timely\<close> if it contains a timely keyword; otherwise \<open>evergreen\<close>. A text
  that contains a breaking keyword as it is written is among the first.
\<close>
theorem urgency_priority:
  "urgency (scoreRelevance weigh text sourceKeywords) =
     (if \<exists>k\<in>set URGENCY_breaking. str_includes (toLowerCase text) k then ''breaking''
      else if \<exists>k\<in>set URGENCY_timely. str_includes (toLowerCase text) k then ''timely''
      else ''evergreen'')
   \<and> ((\<exists>k\<in>set URGENCY_breaking. str_includes text k)
        \<longrightarrow> urgency (scoreRelevance weigh text sourceKeywords) = ''breaking'')"
proof
  show eq: "urgency (scoreRelevance weigh text sourceKeywords) =
     (if \<exists>k\<in>set URGENCY_breaking. str_includes (toLowerCase text) k then ''breaking''
      else if \<exists>k\<in>set URGENCY_timely. str_includes (toLowerCase text) k then ''timely''
      else ''evergreen'')"
    unfolding urgency_scoreRelevance by (rule determineUrgency_cases)
  show "(\<exists>k\<in>set URGENCY_breaking. str_includes text k)
        \<longrightarrow> urgency (scoreRelevance weigh text sourceKeywords) = ''breaking''"
  proof
    assume "\<exists>k\<in>set URGENCY_breaking. str_includes text k"
    then obtain k where k: "k \<in> set URGENCY_breaking" "str_includes text k" by blast
    then have "str_includes (toLowerCase text) k"
      using str_includes_lower breaking_keywords_lower by blast
    with k(1) have "\<exists>k\<in>set URGENCY_breaking. str_includes (toLowerCase text) k" by blast
    with eq show "urgency (scoreRelevance weigh text sourceKeywords) = ''breaking''" by simp
  qed
qed

text \<open>Claim C8, at a headline with a breaking and a timely keyword, and at two without.\<close>
theorem urgency_priority_witness:
  "str_includes (toLowerCase ''Breaking: Aztec announces mainnet'') ''announces''
   \<and> urgency (scoreRelevance default_weigh ''Breaking: Aztec announces mainnet'' []) = ''breaking''
   \<and> urgency (scoreRelevance default_weigh ''Aztec announces mainnet'' []) = ''timely''
   \<and> urgency (scoreRelevance default_weigh ''Aztec mainnet'' []) = ''evergreen''"
proof -
  have a: "str_includes (toLowerCase ''Breaking: Aztec announces mainnet'') ''announces''"
    by code_simp
  have b: "\<exists>k\<in>set URGENCY_breaking.
             str_includes (toLowerCase ''Breaking: Aztec announces mainnet'') k"
    by code_simp
  have c: "\<not> (\<exists>k\<in>set URGENCY_breaking. str_includes (toLowerCase ''Aztec announces mainnet'') k)"
    "\<exists>k\<in>set URGENCY_timely. str_includes (toLowerCase ''Aztec announces mainnet'') k"
    by code_simp+
  have d: "\<not> (\<exists>k\<in>set URGENCY_breaking. str_includes (toLowerCase ''Aztec mainnet'') k)"
    "\<not> (\<exists>k\<in>set URGENCY_timely. str_includes (toLowerCase ''Aztec mainnet'') k)"
    by code_simp+
  show ?thesis
    using a b c d
      urgency_priority [of default_weigh "''Breaking: Aztec announces mainnet''" "[]"]
      urgency_priority [of default_weigh "''Aztec announces mainnet''" "[]"]
      urgency_priority [of default_weigh "''Aztec mainnet''" "[]"]
    by presburger
qed

subsection \<open>Saving records\<close>

lemma market_row_key [simp]:
  "col_address (market_row now r q) = address r" "col_question (market_row now r q) = q"
  by (simp_all add: market_row_def)

lemma rowToMarket_fields:
  assumes "rowToMarket r = Inr m"
  shows "address m = col_address r" and "question m = Some (col_question r)"
    and "endTime m = read_num (col_end_time r)"
    and "initialLiquidity m = map_option Text (col_initial_liquidity r)"
    and "volume m = map_option Text (col_volume r)"
  using assms by (auto simp: rowToMarket_def split: sum.splits)

lemma rowToMarket_JSON_text:
  "col_metadata r = Some (JSON_text j) \<Longrightarrow> \<exists>m. rowToMarket r = Inr m"
  by (simp add: rowToMarket_def JSON_parse_def)

lemma rowToMarket_market_row: "\<exists>m. rowToMarket (market_row now r q) = Inr m"
  by (rule rowToMarket_JSON_text) (simp add: market_row_def)

lemma find_after_insert:
  "find (\<lambda>x. col_address x = col_address r) (insert_or_replace r t) = Some r"
  by (induction t) (simp_all add: insert_or_replace_def)

lemma getMarket_after_insert:
  assumes "rowToMarket r = Inr m"
  shows "getMarket (col_address r) (s\<lparr>markets := insert_or_replace r (markets s)\<rparr>) = Inr (Some m)"
  using assms by (simp add: getMarket_def find_after_insert)

lemma saveMarket_Some:
  assumes "question r = Some q" and "rowToMarket (market_row now r q) = Inr m"
  shows "saveMarket now r s =
           (s\<lparr>markets := insert_or_replace (market_row now r q) (markets s)\<rparr>, Inr (Some m))"
  using assms getMarket_after_insert[OF assms(2), of s]
  by (simp add: saveMarket_def Let_def)

lemma rows_of_key_after_insert:
  "filter (\<lambda>x. col_address x = col_address r) (insert_or_replace r t) = [r]"
  by (induction t) (simp_all add: insert_or_replace_def)

lemma insert_or_replace_twice:
  "col_address r' = col_address r \<Longrightarrow>
   insert_or_replace r' (insert_or_replace r t) = insert_or_replace r' t"
  by (simp add: insert_or_replace_def)

lemma market_row_clock:
  "truthy (creationTime r) \<Longrightarrow> market_row t r q = market_row t' r q"
  by (simp add: market_row_def)

text \<open>
  Claim C2. Saving a record and then saving a record with the same address again, both
  with a question, leaves exactly one row with that address, and \<open>getMarket\<close> reads the
  question of the second save. Saving the second record once more changes nothing, when
  it carries its creation time.
\<close>
theorem saveMarket_upsert:
  assumes "question r1 = Some q1" and "question r2 = Some q2" and "address r2 = address r1"
  shows "\<exists>s1 m1 s2 m2.
           saveMarket t1 r1 s = (s1, Inr m1) \<and> saveMarket t2 r2 s1 = (s2, Inr m2)
           \<and> length (filter (\<lambda>x. col_address x = address r1) (markets s2)) = 1
           \<and> getMarket (address r1) s2 = Inr m2
           \<and> map_option question m2 = Some (Some q2)
           \<and> (truthy (creationTime r2) \<longrightarrow> saveMarket t3 r2 s2 = (s2, Inr m2))"
proof -
  define s1 where "s1 = s\<lparr>markets := insert_or_replace (market_row t1 r1 q1) (markets s)\<rparr>"
  define s2 where "s2 = s1\<lparr>markets := insert_or_replace (market_row t2 r2 q2) (markets s1)\<rparr>"
  obtain m1 where m1: "rowToMarket (market_row t1 r1 q1) = Inr m1"
    using rowToMarket_market_row by blast
  obtain m2 where m2: "rowToMarket (market_row t2 r2 q2) = Inr m2"
    using rowToMarket_market_row by blast
  have a: "saveMarket t1 r1 s = (s1, Inr (Some m1))"
    unfolding s1_def using assms(1) m1 by (rule saveMarket_Some)
  have b: "saveMarket t2 r2 s1 = (s2, Inr (Some m2))"
    unfolding s2_def using assms(2) m2 by (rule saveMarket_Some)
  have key: "col_address (market_row t2 r2 q2) = address r1"
    using assms(3) by simp
  have c: "length (filter (\<lambda>x. col_address x = address r1) (markets s2)) = 1"
    using rows_of_key_after_insert[of "market_row t2 r2 q2" "markets s1"]
    unfolding key by (simp add: s2_def)
  have d: "getMarket (address r1) s2 = Inr (Some m2)"
    using getMarket_after_insert[OF m2, of s1] unfolding key s2_def .
  have e: "map_option question (Some m2) = Some (Some q2)"
    using rowToMarket_fields(2)[OF m2] by simp
  have f: "saveMarket t3 r2 s2 = (s2, Inr (Some m2))" if "truthy (creationTime r2)"
  proof -
    have same: "market_row t3 r2 q2 = market_row t2 r2 q2"
      using that by (rule market_row_clock)
    then have "rowToMarket (market_row t3 r2 q2) = Inr m2"
      using m2 by simp
    from saveMarket_Some[OF assms(2) this, of s2] show ?thesis
      by (simp add: same s2_def insert_or_replace_twice)
  qed
  from a b c d e f show ?thesis by blast
qed

text \<open>Claim C2, at the record \<open>x\<close> of the tests, saved with an updated question.\<close>
theorem saveMarket_upsert_witness:
  "\<exists>s1 m1 s2 m2.
     saveMarket 5 (plain_market ''x'' ''Original question'' 1000 30) empty_store = (s1, Inr m1)
     \<and> saveMarket 6 (plain_market ''x'' ''Updated question'' 1000 30) s1 = (s2, Inr m2)
     \<and> length (filter (\<lambda>r. col_address r = ''x'') (markets s2)) = 1
     \<and> getMarket ''x'' s2 = Inr m2
     \<and> map_option question m2 = Some (Some ''Updated question'')
     \<and> saveMarket 7 (plain_market ''x'' ''Updated question'' 1000 30) s2 = (s2, Inr m2)"
  using saveMarket_upsert [of "plain_market ''x'' ''Original question'' 1000 30"
      "''Original question''" "plain_market ''x'' ''Updated question'' 1000 30"
      "''Updated question''" 5 empty_store 6 7]
  by (simp add: plain_market_def truthy_def)





subsection \<open>Export, clear and import\<close>

lemma distinct_insert_or_replace:
  "distinct (map col_address t) \<Longrightarrow> distinct (map col_address (insert_or_replace r t))"
  by (auto simp: insert_or_replace_def distinct_map_filter)

lemma unique_addresses_empty: "unique_addresses empty_store" "unique_addresses (clear s)"
  by (simp_all add: unique_addresses_def empty_store_def clear_def)

text \<open>
  Every metadata column that \<open>saveMarket\<close> writes is JSON text, so a store that only
  \<open>saveMarket\<close> has written to has JSON metadata throughout.
\<close>

lemma json_metadata_empty: "json_metadata empty_store" "json_metadata (clear s)"
  by (simp_all add: json_metadata_def empty_store_def clear_def)

lemma json_metadata_insert:
  assumes "json_metadata s"
  shows "json_metadata (s\<lparr>markets := insert_or_replace (market_row now r q) (markets s)\<rparr>)"
  using assms by (simp add: json_metadata_def insert_or_replace_def market_row_def list_all_iff)

lemma json_metadata_saveMarket:
  assumes "json_metadata s"
  shows "json_metadata (fst (saveMarket now r s))"
proof (cases "question r")
  case None
  with assms show ?thesis by (simp add: saveMarket_def)
next
  case (Some q)
  with json_metadata_insert[OF assms, of now r q] show ?thesis
    by (simp add: saveMarket_def Let_def)
qed

lemma rowToMarket_json:
  assumes "case col_metadata r of Some (Other_text t) \<Rightarrow> t = [] | _ \<Rightarrow> True"
  shows "\<exists>m. rowToMarket r = Inr m"
  using assms
  by (auto simp: rowToMarket_def JSON_parse_def text_of_def split: option.splits column_text.splits)

lemma rows_to_markets_json:
  assumes "list_all (\<lambda>r. case col_metadata r of Some (Other_text t) \<Rightarrow> t = [] | _ \<Rightarrow> True) rows"
  shows "\<exists>found. rows_to_markets rows = Inr found
           \<and> list_all2 (\<lambda>r m. rowToMarket r = Inr m) rows found"
  using assms
proof (induction rows)
  case Nil
  then show ?case by simp
next
  case (Cons r rows)
  then obtain m found where "rowToMarket r = Inr m" "rows_to_markets rows = Inr found"
    "list_all2 (\<lambda>r m. rowToMarket r = Inr m) rows found"
    using rowToMarket_json[of r] by auto
  then show ?case by simp
qed

lemma keys_filter_append:
  "set (map (\<lambda>r. (f r, g r)) (filter (\<lambda>old. f old \<noteq> a) t @ [r])) =
     {p \<in> set (map (\<lambda>r. (f r, g r)) t). fst p \<noteq> a} \<union> {(f r, g r)}"
proof -
  have "{p \<in> (\<lambda>r. (f r, g r)) ` set t. fst p \<noteq> a}
          = (\<lambda>r. (f r, g r)) ` {x \<in> set t. f x \<noteq> a}"
    by (induction t) auto
  then show ?thesis by simp
qed

lemma keys_insert_or_replace:
  "set (map (\<lambda>r. (col_address r, col_question r)) (insert_or_replace r t)) =
     {p \<in> set (map (\<lambda>r. (col_address r, col_question r)) t). fst p \<noteq> col_address r}
       \<union> {(col_address r, col_question r)}"
  unfolding insert_or_replace_def by (rule keys_filter_append)

lemma import_loop_rows:
  assumes "list_all2 (\<lambda>r m. rowToMarket r = Inr m) rows found"
    and "distinct (map col_address rows)"
  shows "\<exists>s'. import_loop clock i found s = (True, s')
           \<and> identified_questions s' =
               {p \<in> identified_questions s. fst p \<notin> set (map col_address rows)}
                 \<union> set (map (\<lambda>r. (col_address r, col_question r)) rows)
           \<and> (unique_addresses s \<longrightarrow> unique_addresses s')
           \<and> (json_metadata s \<longrightarrow> json_metadata s')
           \<and> daemon_states s' = daemon_states s \<and> webhook_events s' = webhook_events s"
  using assms
proof (induction rows found arbitrary: i s rule: list_all2_induct)
  case Nil
  then show ?case by simp
next
  case (Cons r rows m found)
  have am: "address m = col_address r" and qm: "question m = Some (col_question r)"
    using rowToMarket_fields(1,2)[OF Cons.hyps(1)] by simp_all
  define s1 where
    "s1 = s\<lparr>markets := insert_or_replace (market_row (clock i) m (col_question r)) (markets s)\<rparr>"
  obtain m' where "rowToMarket (market_row (clock i) m (col_question r)) = Inr m'"
    using rowToMarket_market_row by blast
  with qm have save: "saveMarket (clock i) m s = (s1, Inr (Some m'))"
    unfolding s1_def by (rule saveMarket_Some)
  from Cons.prems have d: "distinct (map col_address rows)"
    and fresh: "col_address r \<notin> set (map col_address rows)"
    by simp_all
  from Cons.IH[OF d, of "Suc i" s1] obtain s' where
    loop: "import_loop clock (Suc i) found s1 = (True, s')"
    and keys: "identified_questions s' =
               {p \<in> identified_questions s1. fst p \<notin> set (map col_address rows)}
                 \<union> set (map (\<lambda>r. (col_address r, col_question r)) rows)"
    and uniq: "unique_addresses s1 \<longrightarrow> unique_addresses s'"
    and json: "json_metadata s1 \<longrightarrow> json_metadata s'"
    and rest: "daemon_states s' = daemon_states s1" "webhook_events s' = webhook_events s1"
    by blast
  have k1: "identified_questions s1 =
              {p \<in> identified_questions s. fst p \<noteq> col_address r}
                \<union> {(col_address r, col_question r)}"
    using keys_insert_or_replace[of "market_row (clock i) m (col_question r)" "markets s"]
    by (simp add: identified_questions_def s1_def am)
  have "import_loop clock i (m # found) s = (True, s')"
    using save loop by simp
  moreover have "identified_questions s' =
               {p \<in> identified_questions s. fst p \<notin> set (map col_address (r # rows))}
                 \<union> set (map (\<lambda>r. (col_address r, col_question r)) (r # rows))"
    unfolding keys k1 using fresh by auto
  moreover have "unique_addresses s \<longrightarrow> unique_addresses s'"
    using uniq by (simp add: unique_addresses_def s1_def distinct_insert_or_replace)
  moreover have "json_metadata s \<longrightarrow> json_metadata s'"
    using json json_metadata_insert[of s "clock i" m "col_question r"] by (simp add: s1_def)
  moreover have "daemon_states s' = daemon_states s" "webhook_events s' = webhook_events s"
    using rest by (simp_all add: s1_def)
  ultimately show ?case by blast
qed

lemma getAllMarkets_no_options:
  "getAllMarkets no_options s = rows_to_markets (newest_first (markets s))"
  by (simp add: getAllMarkets_def no_options_def or_null_def set_int_def set_nat_def)

lemma newest_first_perm:
  "set (newest_first rows) = set rows"
  "distinct (map col_address (newest_first rows)) = distinct (map col_address rows)"
  by (simp_all add: newest_first_def distinct_map)

text \<open>
  Claim C9. For a store whose rows have distinct addresses, as the primary key
  guarantees, and whose metadata columns hold JSON text, as every \<open>saveMarket\<close> writes
  it, the export succeeds, and clearing and importing the export succeeds and gives a
  store with the same identifiers, each with the same question; importing the same
  export once more succeeds as well and leaves identifiers and questions as they are.
\<close>
theorem export_clear_import:
  assumes "unique_addresses s" and "json_metadata s"
  shows "\<exists>doc s' s''. export s = Inr doc
           \<and> import clock doc (clear s) = (True, s')
           \<and> identified_questions s' = identified_questions s
           \<and> unique_addresses s' \<and> json_metadata s'
           \<and> import clock' doc s' = (True, s'')
           \<and> identified_questions s'' = identified_questions s
           \<and> unique_addresses s'' \<and> json_metadata s''"
proof -
  let ?rows = "newest_first (markets s)"
  have d: "distinct (map col_address ?rows)"
    using assms(1) by (simp add: newest_first_perm unique_addresses_def)
  have keys: "set (map (\<lambda>r. (col_address r, col_question r)) ?rows) = identified_questions s"
    by (simp add: identified_questions_def newest_first_perm)
  have addrs: "set (map col_address ?rows) = fst ` identified_questions s"
    by (force simp: identified_questions_def newest_first_perm)
  have "list_all (\<lambda>r. case col_metadata r of Some (Other_text t) \<Rightarrow> t = [] | _ \<Rightarrow> True) ?rows"
    using assms(2) by (simp add: json_metadata_def list_all_iff newest_first_perm)
  from rows_to_markets_json[OF this] obtain found where
    found: "rows_to_markets ?rows = Inr found"
    and rel: "list_all2 (\<lambda>r m. rowToMarket r = Inr m) ?rows found"
    by blast
  define doc where
    "doc = Document \<lparr>snap_markets = Some found,
                     snap_state = map (\<lambda>(k, v, _). (k, v)) (daemon_states s),
                     snap_events = take 1000 (rev (sort_key ev_timestamp (webhook_events s)))\<rparr>"
  have ex: "export s = Inr doc"
    by (simp add: export_def getAllMarkets_no_options found doc_def)
  have imp: "import c doc t = import_loop c 0 found t" for c t
    by (simp add: import_def doc_def)
  from import_loop_rows[OF rel d, of clock 0 "clear s"] obtain s' where
    1: "import_loop clock 0 found (clear s) = (True, s')"
    and 2: "identified_questions s' =
              {p \<in> identified_questions (clear s). fst p \<notin> set (map col_address ?rows)}
                \<union> set (map (\<lambda>r. (col_address r, col_question r)) ?rows)"
    and 3: "unique_addresses (clear s) \<longrightarrow> unique_addresses s'"
    and j3: "json_metadata (clear s) \<longrightarrow> json_metadata s'"
    by blast
  have k': "identified_questions s' = identified_questions s"
    unfolding 2 keys by (simp add: identified_questions_def clear_def)
  have u': "unique_addresses s'"
    using 3 by (simp add: unique_addresses_empty)
  have j': "json_metadata s'"
    using j3 by (simp add: json_metadata_empty)
  from import_loop_rows[OF rel d, of clock' 0 s'] obtain s'' where
    4: "import_loop clock' 0 found s' = (True, s'')"
    and 5: "identified_questions s'' =
              {p \<in> identified_questions s'. fst p \<notin> set (map col_address ?rows)}
                \<union> set (map (\<lambda>r. (col_address r, col_question r)) ?rows)"
    and 6: "unique_addresses s' \<longrightarrow> unique_addresses s''"
    and j6: "json_metadata s' \<longrightarrow> json_metadata s''"
    by blast
  have k'': "identified_questions s'' = identified_questions s"
    unfolding 5 keys k' addrs by auto
  from ex 1 4 k' k'' u' j' 6 j6 show ?thesis
    unfolding imp[symmetric] by blast
qed

lemma import_loop_step:
  assumes "question m = Some q"
  shows "import_loop clock i (m # rest) s =
           import_loop clock (Suc i) rest
             (s\<lparr>markets := insert_or_replace (market_row (clock i) m q) (markets s)\<rparr>)"
proof -
  obtain m' where "rowToMarket (market_row (clock i) m q) = Inr m'"
    using rowToMarket_market_row by blast
  from saveMarket_Some[OF assms this] show ?thesis by simp
qed

lemma store_with_two:
  "markets (store_with [plain_market ''a'' ''First?'' 1000 30, plain_market ''b'' ''Second?'' 2000 7])
     = [market_row 0 (plain_market ''a'' ''First?'' 1000 30) ''First?'',
        market_row 0 (plain_market ''b'' ''Second?'' 2000 7) ''Second?'']"
proof -
  have q: "question (plain_market ''a'' ''First?'' 1000 30) = Some ''First?''"
    "question (plain_market ''b'' ''Second?'' 2000 7) = Some ''Second?''"
    by (simp_all add: plain_market_def)
  show ?thesis
    unfolding store_with_def import_loop_step[OF q(1)] import_loop_step[OF q(2)]
    by (simp add: insert_or_replace_def empty_store_def plain_market_def)
qed

text \<open>Claim C9, at a store of two records.\<close>
theorem export_clear_import_witness:
  "unique_addresses
     (store_with [plain_market ''a'' ''First?'' 1000 30, plain_market ''b'' ''Second?'' 2000 7])
   \<and> json_metadata
     (store_with [plain_market ''a'' ''First?'' 1000 30, plain_market ''b'' ''Second?'' 2000 7])
   \<and> (\<exists>doc s' s''.
         export (store_with [plain_market ''a'' ''First?'' 1000 30,
                             plain_market ''b'' ''Second?'' 2000 7]) = Inr doc
         \<and> import (\<lambda>i. 7) doc
             (clear (store_with [plain_market ''a'' ''First?'' 1000 30,
                                 plain_market ''b'' ''Second?'' 2000 7])) = (True, s')
         \<and> identified_questions s' = {(''a'', ''First?''), (''b'', ''Second?'')}
         \<and> import (\<lambda>i. 8) doc s' = (True, s'')
         \<and> identified_questions s'' = {(''a'', ''First?''), (''b'', ''Second?'')})"
proof -
  let ?S = "store_with [plain_market ''a'' ''First?'' 1000 30, plain_market ''b'' ''Second?'' 2000 7]"
  have u: "unique_addresses ?S"
    unfolding unique_addresses_def store_with_two by (simp add: plain_market_def)
  have j: "json_metadata ?S"
    unfolding json_metadata_def store_with_two by (simp add: market_row_def)
  have k: "identified_questions ?S = {(''a'', ''First?''), (''b'', ''Second?'')}"
    unfolding identified_questions_def store_with_two by (simp add: plain_market_def)
  from export_clear_import [OF u j, of "\<lambda>i. 7" "\<lambda>i. 8"] u j k show ?thesis
    by metis
qed

text \<open>
  Without the hypothesis on the metadata the export can fail: a row whose metadata column
  was set to text that is not JSON makes \<open>getMarket\<close>, \<open>getAllMarkets\<close> and \<open>export\<close>
  throw.
\<close>
lemma export_throws_on_other_text:
  "export (empty_store\<lparr>markets :=
       [(market_row 0 (plain_market ''a'' ''First?'' 1000 30) ''First?'')
          \<lparr>col_metadata := Some (Other_text ''pending'')\<rparr>]\<rparr>)
     = Inl (SyntaxError ''pending'')"
  by (simp add: export_def getAllMarkets_no_options newest_first_def rowToMarket_def
      JSON_parse_def text_of_def empty_store_def)

subsection \<open>Restarting the daemon\<close>

lemma iterationCount_saveState [simp]:
  "iterationCount (daemon_saveState now d) = iterationCount d"
  by (simp add: daemon_saveState_def split: option.splits)

lemma iterationCount_stop [simp]:
  "iterationCount (daemon_stop now d) = iterationCount d"
  by (simp add: daemon_stop_def)

lemma iterationCount_executeCycle:
  "iterationCount (executeCycle now batch d) =
     (if max_reached d then iterationCount d else to_double (iterationCount d + 1))"
  by (simp add: executeCycle_def Let_def split: option.splits prod.splits bool.splits)

lemma restoreState_count:
  assumes "getState ''daemon'' st = Some saved" and "state_iterationCount saved = Num k"
  shows "restoreState (d\<lparr>daemon_store := Some st\<rparr>) = d\<lparr>daemon_store := Some st, iterationCount := k\<rparr>"
  using assms by (simp add: restoreState_def)

lemma getState_after_saveState:
  "getState ''daemon'' (saveState now ''daemon'' v s) = Some v"
proof -
  have "map_of (filter (\<lambda>(k, _). k \<noteq> key) t @ [(key, x)]) key = Some x"
    for key :: string and x :: "daemon_state \<times> int" and t
    by (induction t) auto
  then show ?thesis
    by (simp add: getState_def saveState_def)
qed

lemma daemon_saveState_persists:
  assumes "daemon_store d = Some s"
  shows "\<exists>s' saved. daemon_store (daemon_saveState now d) = Some s'
           \<and> getState ''daemon'' s' = Some saved
           \<and> state_iterationCount saved = Num (iterationCount d)"
  using assms by (simp add: daemon_saveState_def getState_after_saveState)

text \<open>
  The constructor of the store opens the file at a path that is given as a string, which
  is how the command line interface calls it, and throws on the object that \<open>start\<close> of
  the daemon passes.
\<close>

lemma new_MarketStore_path:
  assumes "p \<noteq> []" and "p \<noteq> '':memory:''" and "files p = Some st"
  shows "new_MarketStore files (Path p) = Inr st"
  using assms by (simp add: new_MarketStore_def)

lemma new_MarketStore_config_object:
  "\<exists>msg. new_MarketStore files (Config_object p) = Inl (TypeError msg)"
  by (simp add: new_MarketStore_def)

text \<open>
  So \<open>start\<close> of a daemon that is not running ends with an exception, whatever the
  configuration and the content of the files, and leaves the daemon as it was.
\<close>

lemma daemon_start_throws:
  assumes "\<not> isRunning d"
  shows "\<exists>e. daemon_start agent_failure files now batch d = (Some e, d)"
  using assms by (simp add: daemon_start_def new_MarketStore_def split: option.splits)

text \<open>
  On a daemon that holds the store, restoring and counting work: with a state persisted
  under the daemon's key whose iteration count is \<open>k\<close>, \<open>restoreState\<close> sets the
  counter to \<open>k\<close>, and the next cycle makes it \<open>k + 1\<close>, unless a maximum of iterations
  is configured and \<open>k\<close> has reached it: then the counter stays \<open>k\<close>.
\<close>

lemma restoreState_continues_counting:
  assumes "getState ''daemon'' st = Some saved" and "state_iterationCount saved = Num k"
    and "\<bar>k + 1\<bar> < 2 ^ 53"
  shows "iterationCount (restoreState (d\<lparr>daemon_store := Some st\<rparr>)) = k
         \<and> iterationCount (executeCycle now batch (restoreState (d\<lparr>daemon_store := Some st\<rparr>)))
             = (case cfg_maxIterations d of
                  None \<Rightarrow> k + 1
                | Some m \<Rightarrow> if m \<noteq> 0 \<and> k \<ge> m then k else k + 1)"
proof -
  let ?r = "restoreState (d\<lparr>daemon_store := Some st\<rparr>)"
  have r: "?r = d\<lparr>daemon_store := Some st, iterationCount := k\<rparr>"
    using assms(1,2) by (rule restoreState_count)
  have a: "iterationCount ?r = k"
    by (simp add: r)
  have b: "iterationCount (executeCycle now batch ?r)
             = (case cfg_maxIterations d of
                  None \<Rightarrow> k + 1
                | Some m \<Rightarrow> if m \<noteq> 0 \<and> k \<ge> m then k else k + 1)"
    unfolding iterationCount_executeCycle
    by (simp add: r max_reached_def to_double_safe[OF assms(3)] split: option.splits)
  from a b show ?thesis by blast
qed

lemma persisted_five:
  "getState ''daemon''
     (saveState 0 ''daemon''
        \<lparr>state_iterationCount = Num 5, state_lastRunTime = 0, state_schedule = ''1h'',
         state_marketsPerRound = 1\<rparr> empty_store)
   = Some \<lparr>state_iterationCount = Num 5, state_lastRunTime = 0, state_schedule = ''1h'',
           state_marketsPerRound = 1\<rparr>"
  by (rule getState_after_saveState)

text \<open>
  At a persisted count of 5 and no maximum, on a daemon that holds the store: 5 is
  restored, and the next cycle makes it 6.
\<close>
lemma restore_five_then_six:
  "iterationCount (restoreState ((new_daemon ''1h'' None 1 False None)
      \<lparr>daemon_store := Some (saveState 0 ''daemon''
          \<lparr>state_iterationCount = Num 5, state_lastRunTime = 0, state_schedule = ''1h'',
           state_marketsPerRound = 1\<rparr> empty_store)\<rparr>)) = 5
   \<and> iterationCount (executeCycle 9 (Some []) (restoreState ((new_daemon ''1h'' None 1 False None)
      \<lparr>daemon_store := Some (saveState 0 ''daemon''
          \<lparr>state_iterationCount = Num 5, state_lastRunTime = 0, state_schedule = ''1h'',
           state_marketsPerRound = 1\<rparr> empty_store)\<rparr>))) = 6"
  using restoreState_continues_counting [OF persisted_five, of 5 "new_daemon ''1h'' None 1 False None" 9 "Some []"]
  by (simp add: new_daemon_def)

text \<open>
  Claim C1, at a database file that holds a daemon state with iteration count 5 and a new
  daemon configured with the path of that file. \<open>start\<close> ends with the \<open>TypeError\<close> of
  the store's constructor, before the state is restored: the daemon is left without a
  store and with its counter at 0, not at 5 or more, and the next cycle counts from 0
  to 1.
\<close>
theorem start_throws_before_restoring:
  "daemon_start None
     [''data/markets.db'' \<mapsto> saveState 0 ''daemon''
        \<lparr>state_iterationCount = Num 5, state_lastRunTime = 0, state_schedule = ''1h'',
         state_marketsPerRound = 1\<rparr> empty_store]
     9 (Some []) (new_daemon ''1h'' None 1 False (Some ''data/markets.db''))
   = (Some (TypeError (''The '' @ [CHR 0x22] @ ''path'' @ [CHR 0x22]
              @ '' argument must be of type string. Received an instance of Object'')),
      new_daemon ''1h'' None 1 False (Some ''data/markets.db''))
   \<and> iterationCount (new_daemon ''1h'' None 1 False (Some ''data/markets.db'')) = 0
   \<and> daemon_store (new_daemon ''1h'' None 1 False (Some ''data/markets.db'')) = None
   \<and> iterationCount (executeCycle 10 (Some [])
        (new_daemon ''1h'' None 1 False (Some ''data/markets.db''))) = 1"
  by (simp add: daemon_start_def new_MarketStore_def new_daemon_def iterationCount_executeCycle
      max_reached_def to_double_def)

subsection \<open>Amounts and performance metrics\<close>






















text \<open>
  The rounding follows the doubles: of 40 records with 23 resolved the quotient 0.575 is
  held as a double just below it, and the rate is 0.57.
\<close>
lemma rate_of_23_in_40:
  "fl (of_int (Math_round (fl (fl (23 / 40) * 100))) / 100) = fl (57 / 100)"
  by code_simp

text \<open>
  The volume total is summed by the database on 64-bit integers and handed over as a
  double before \<open>BigInt\<close> sees it: a single volume of 9007199254740993 comes back as a
  total of 9007199254740992.
\<close>
lemma totalVolume_through_double:
  "map_sum id totalVolume
     (getPerformanceMetrics
        (store_with
           [(plain_market ''a'' ''First?'' 1000 30)
              \<lparr>status := Some ''resolved'', volume := Some (Text ''9007199254740993'')\<rparr>,
            plain_market ''b'' ''Second?'' 2000 30]))
     = Inr ''9007199254740992''
   \<and> dec (exact_total [Some 9007199254740993, None]) = ''9007199254740993''"
  by code_simp




end
